theory Spec2Isabelle
  imports Main
begin

section \<open>Data model (models.py)\<close>

text \<open>
  One record per mapped class, one field per column. The primary key \<open>id\<close> is an
  integer; every column that models.py leaves nullable is an \<open>option\<close>, with
  \<open>None\<close> for SQL NULL. \<open>Media.data\<close> and \<open>Media.file_name\<close> are declared
  \<open>nullable=False\<close>. Bytes are character lists.
\<close>

type_synonym bytes = string

record user =
  u_id :: int
  u_name :: "string option"
  u_api_key :: "string option"

record tweet =
  t_id :: int
  t_content_text :: "string option"
  t_owner_id :: "int option"

record follower =
  f_id :: int
  f_follower_id :: "int option"
  f_following_id :: "int option"

record like =
  l_id :: int
  l_user_id :: "int option"
  l_tweet_id :: "int option"

record media =
  m_id :: int
  m_data :: bytes
  m_file_name :: string
  m_tweet_id :: "int option"

text \<open>The store: the five tables, each a list of rows in the store's own order.\<close>

record db =
  users :: "user list"
  tweets :: "tweet list"
  medias :: "media list"
  likes :: "like list"
  followers :: "follower list"

text \<open>schemas.py: the body of a tweet-creation request.\<close>

record tweet_create =
  tweet_data :: string
  tweet_media_ids :: "int list option"

section \<open>The session (database.py)\<close>

text \<open>
  A request works on one \<open>AsyncSession\<close>. Its changes are pending until
  \<open>commit\<close>; \<open>rollback\<close> drops what is pending; closing the session at the end
  of the request leaves the committed rows in the store.
\<close>

record session =
  committed :: db
  pending :: db

definition get_async_session :: "db \<Rightarrow> session" where
  "get_async_session d = \<lparr>committed = d, pending = d\<rparr>"

definition commit :: "session \<Rightarrow> session" where
  "commit s = s\<lparr>committed := pending s\<rparr>"

definition rollback :: "session \<Rightarrow> session" where
  "rollback s = s\<lparr>pending := committed s\<rparr>"

definition close_session :: "session \<Rightarrow> db" where
  "close_session s = committed s"

section \<open>Exceptions and responses\<close>

text \<open>
  The exceptions the handlers can meet: the \<open>HTTPException\<close> they raise themselves
  (status code and detail), Python's \<open>AttributeError\<close> (type name and attribute)
  and \<open>TypeError\<close>, and SQLAlchemy's \<open>MultipleResultsFound\<close>. All of them are
  subclasses of \<open>Exception\<close>.
\<close>

datatype exn =
    HTTPException nat string
  | AttributeError string string
  | TypeError string
  | MultipleResultsFound

fun str_nat :: "nat \<Rightarrow> string" where
  "str_nat n =
     (if n < 10 then [char_of (48 + n)]
      else str_nat (n div 10) @ [char_of (48 + n mod 10)])"

declare str_nat.simps [simp del]

definition str_int :: "int \<Rightarrow> string" where
  "str_int i = (if i < 0 then CHR ''-'' # str_nat (nat (- i)) else str_nat (nat i))"

definition quoted :: "string \<Rightarrow> string" where
  "quoted s = CHR 0x27 # s @ [CHR 0x27]"

text \<open>
  \<open>str(e)\<close>, the text that ends up in \<open>error_message\<close>. An
  \<open>HTTPException\<close> prints as its status code, a colon and its detail.
\<close>

fun str_exn :: "exn \<Rightarrow> string" where
  "str_exn (HTTPException status_code detail) = str_nat status_code @ '': '' @ detail"
| "str_exn (AttributeError ty attr) =
     quoted ty @ '' object has no attribute '' @ quoted attr"
| "str_exn (TypeError msg) = msg"
| "str_exn MultipleResultsFound =
     ''Multiple rows were found when one or none was required''"

text \<open>The dictionaries the handlers return, and the HTTP responses made of them.\<close>

datatype user_ref = UserRef int "string option"

datatype like_ref = LikeRef "int option" "string option"

datatype tweet_dict =
  TweetDict int "string option" "string list" user_ref "like_ref list"

datatype user_dict = UserDict int "string option" "user_ref list" "user_ref list"

datatype json =
    ResultTweetId bool int
  | ResultMediaId bool int
  | Result bool
  | ResultTweets bool "tweet_dict list"
  | ResultUser bool user_dict
  | ResultError bool string string

datatype response =
    JSONResponse nat json
  | Response nat bytes string

section \<open>Query results\<close>

text \<open>
  \<open>Result.scalar_one_or_none()\<close>: the only row, \<open>None\<close> without rows, and
  \<open>MultipleResultsFound\<close> with more than one. \<open>scalars().first()\<close>: the first
  row or \<open>None\<close>.
\<close>

fun scalar_one_or_none :: "'a list \<Rightarrow> exn + 'a option" where
  "scalar_one_or_none [] = Inr None"
| "scalar_one_or_none [x] = Inr (Some x)"
| "scalar_one_or_none (x # y # rest) = Inl MultipleResultsFound"

fun first :: "'a list \<Rightarrow> 'a option" where
  "first [] = None"
| "first (x # rest) = Some x"

text \<open>
  The key of a new row. The store hands out a key that no row of the table uses; it
  is taken one past the largest key in use.
\<close>

definition fresh_id :: "int list \<Rightarrow> int" where
  "fresh_id ids = foldr max ids 0 + 1"

section \<open>Authentication (get_current_user)\<close>

text \<open>
  The header is optional (\<open>auto_error=False\<close>): an absent header is \<open>None\<close>,
  and \<open>User.api_key == None\<close> selects the rows whose key is NULL. The
  \<open>HTTPException\<close> is raised inside the \<open>try\<close> block, whose
  \<open>except Exception\<close> clause returns the error dictionary as the value of
  the dependency.
\<close>

datatype current_user = UserObj user | Dict json

definition get_current_user_try :: "string option \<Rightarrow> session \<Rightarrow> exn + user" where
  "get_current_user_try api_key s =
     (case scalar_one_or_none (filter (\<lambda>u. u_api_key u = api_key) (users (pending s))) of
        Inl e \<Rightarrow> Inl e
      | Inr None \<Rightarrow> Inl (HTTPException 403 ''Invalid API Key'')
      | Inr (Some user) \<Rightarrow> Inr user)"

definition get_current_user :: "string option \<Rightarrow> session \<Rightarrow> current_user" where
  "get_current_user api_key s =
     (case get_current_user_try api_key s of
        Inr user \<Rightarrow> UserObj user
      | Inl e \<Rightarrow> Dict (ResultError False ''server_error'' (str_exn e)))"

text \<open>\<open>current_user.id\<close>: a dictionary has no such attribute.\<close>

fun attr_id :: "current_user \<Rightarrow> exn + int" where
  "attr_id (UserObj u) = Inr (u_id u)"
| "attr_id (Dict d) = Inl (AttributeError ''dict'' ''id'')"

section \<open>Writes of the unit of work\<close>

text \<open>
  \<open>session.add\<close> of a new row, an attribute assignment on a loaded row, and
  \<open>session.delete\<close>. They change the pending rows only.
\<close>

definition add_tweet :: "tweet \<Rightarrow> session \<Rightarrow> session" where
  "add_tweet t s = s\<lparr>pending := (pending s)\<lparr>tweets := tweets (pending s) @ [t]\<rparr>\<rparr>"

definition add_media :: "media \<Rightarrow> session \<Rightarrow> session" where
  "add_media m s = s\<lparr>pending := (pending s)\<lparr>medias := medias (pending s) @ [m]\<rparr>\<rparr>"

definition add_like :: "like \<Rightarrow> session \<Rightarrow> session" where
  "add_like l s = s\<lparr>pending := (pending s)\<lparr>likes := likes (pending s) @ [l]\<rparr>\<rparr>"

definition add_follower :: "follower \<Rightarrow> session \<Rightarrow> session" where
  "add_follower f s =
     s\<lparr>pending := (pending s)\<lparr>followers := followers (pending s) @ [f]\<rparr>\<rparr>"

text \<open>\<open>result_media.tweet_id = v\<close>: an UPDATE of the row with that primary key.\<close>

definition set_media_tweet_id :: "media \<Rightarrow> int option \<Rightarrow> session \<Rightarrow> session" where
  "set_media_tweet_id result_media v s =
     s\<lparr>pending := (pending s)\<lparr>medias :=
         map (\<lambda>m. if m_id m = m_id result_media then m\<lparr>m_tweet_id := v\<rparr> else m)
           (medias (pending s))\<rparr>\<rparr>"

text \<open>
  \<open>session.delete(tweet)\<close> follows the relationships of \<open>Tweet\<close> in models.py.
  \<open>Tweet.like\<close> has \<open>cascade="all, delete-orphan"\<close>: the likes of the tweet are
  deleted with it. \<open>Tweet.media\<close> has the default cascade, which has no
  \<open>delete\<close>: the unit of work then takes the media of the tweet out of the
  collection by setting their foreign key to NULL, and the rows stay. \<open>Tweet.owner\<close>
  is many-to-one and leaves the user alone.
\<close>

definition delete_tweet :: "tweet \<Rightarrow> session \<Rightarrow> session" where
  "delete_tweet t s =
     s\<lparr>pending := (pending s)\<lparr>
         tweets := filter (\<lambda>x. t_id x \<noteq> t_id t) (tweets (pending s)),
         likes := filter (\<lambda>l. l_tweet_id l \<noteq> Some (t_id t)) (likes (pending s)),
         medias :=
           map (\<lambda>m. if m_tweet_id m = Some (t_id t) then m\<lparr>m_tweet_id := None\<rparr> else m)
             (medias (pending s))\<rparr>\<rparr>"

definition delete_like :: "like \<Rightarrow> session \<Rightarrow> session" where
  "delete_like l s =
     s\<lparr>pending := (pending s)\<lparr>likes := filter (\<lambda>x. l_id x \<noteq> l_id l) (likes (pending s))\<rparr>\<rparr>"

definition delete_follower :: "follower \<Rightarrow> session \<Rightarrow> session" where
  "delete_follower f s =
     s\<lparr>pending := (pending s)\<lparr>
         followers := filter (\<lambda>x. f_id x \<noteq> f_id f) (followers (pending s))\<rparr>\<rparr>"

section \<open>POST /api/tweets (create_tweet)\<close>

text \<open>
  The loop over \<open>tweet.tweet_media_ids\<close>: a found row is attached and committed at
  once; a missing row rolls back what is pending and raises 404, which ends the loop.
\<close>

fun attach_media :: "int \<Rightarrow> int list \<Rightarrow> session \<Rightarrow> (exn + unit) \<times> session" where
  "attach_media tweet_id [] s = (Inr (), s)"
| "attach_media tweet_id (media_id # rest) s =
     (case scalar_one_or_none (filter (\<lambda>m. m_id m = media_id) (medias (pending s))) of
        Inl e \<Rightarrow> (Inl e, s)
      | Inr None \<Rightarrow> (Inl (HTTPException 404 ''Media not found''), rollback s)
      | Inr (Some result_media) \<Rightarrow>
          attach_media tweet_id rest
            (commit (set_media_tweet_id result_media (Some tweet_id) s)))"

definition create_tweet_try ::
  "tweet_create \<Rightarrow> current_user \<Rightarrow> session \<Rightarrow> (exn + int) \<times> session" where
  "create_tweet_try tweet current_user s =
     (case attr_id current_user of
        Inl e \<Rightarrow> (Inl e, s)
      | Inr owner \<Rightarrow>
          (let db_tweet = \<lparr>t_id = fresh_id (map t_id (tweets (pending s))),
                           t_content_text = Some (tweet_data tweet),
                           t_owner_id = Some owner\<rparr>;
               s1 = commit (add_tweet db_tweet s)
           in case tweet_media_ids tweet of
                None \<Rightarrow> (Inr (t_id db_tweet), s1)
              | Some ids \<Rightarrow>
                  (case attach_media (t_id db_tweet) ids s1 of
                     (Inl e, s2) \<Rightarrow> (Inl e, s2)
                   | (Inr u, s2) \<Rightarrow> (Inr (t_id db_tweet), s2))))"

definition create_tweet :: "tweet_create \<Rightarrow> string option \<Rightarrow> db \<Rightarrow> response \<times> db" where
  "create_tweet tweet api_key d =
     (let s = get_async_session d;
          current_user = get_current_user api_key s
      in case create_tweet_try tweet current_user s of
           (Inr tweet_id, s') \<Rightarrow>
             (JSONResponse 200 (ResultTweetId True tweet_id), close_session s')
         | (Inl e, s') \<Rightarrow>
             (JSONResponse 200 (ResultError False ''server_error'' (str_exn e)),
              close_session s'))"

section \<open>POST /api/medias (create_media)\<close>

record upload_file =
  filename :: string
  content_type :: "string option"
  file_read :: bytes

fun split_on :: "char \<Rightarrow> string \<Rightarrow> string list" where
  "split_on c [] = [[]]"
| "split_on c (x # xs) =
     (if x = c then [] # split_on c xs
      else (case split_on c xs of
              [] \<Rightarrow> [[x]]
            | y # ys \<Rightarrow> (x # y) # ys))"

text \<open>
  \<open>Path(name).suffix\<close>: the last component of the path, from its last dot on,
  when that dot is neither its first nor its last character.
\<close>

definition path_name :: "string \<Rightarrow> string" where
  "path_name p =
     (case rev (filter (\<lambda>part. part \<noteq> [] \<and> part \<noteq> ''.'') (split_on CHR ''/'' p)) of
        [] \<Rightarrow> []
      | part # parts \<Rightarrow> part)"

definition path_suffix :: "string \<Rightarrow> string" where
  "path_suffix p =
     (let name = path_name p;
          after = length (takeWhile (\<lambda>c. c \<noteq> CHR ''.'') (rev name))
      in if 0 < after \<and> after + 1 < length name
         then drop (length name - 1 - after) name else [])"

text \<open>\<open>uuid4\<close> is the text of the random identifier drawn for this upload.\<close>

definition create_media_try ::
  "upload_file \<Rightarrow> string \<Rightarrow> current_user \<Rightarrow> session \<Rightarrow> (exn + int) \<times> session" where
  "create_media_try f uuid4 current_user s =
     (if content_type f \<notin> set [Some ''image/jpeg'', Some ''image/png'', Some ''image/jpg'']
      then (Inl (HTTPException 400 ''Invalid file type. Only JPEG and PNG are allowed.''), s)
      else
        (let unique_filename = uuid4 @ path_suffix (filename f);
             new_media = \<lparr>m_id = fresh_id (map m_id (medias (pending s))),
                          m_data = file_read f,
                          m_file_name = unique_filename,
                          m_tweet_id = None\<rparr>;
             s1 = commit (add_media new_media s)
         in (Inr (m_id new_media), s1)))"

definition create_media ::
  "upload_file \<Rightarrow> string \<Rightarrow> string option \<Rightarrow> db \<Rightarrow> response \<times> db" where
  "create_media f uuid4 api_key d =
     (let s = get_async_session d;
          current_user = get_current_user api_key s
      in case create_media_try f uuid4 current_user s of
           (Inr media_id, s') \<Rightarrow>
             (JSONResponse 200 (ResultMediaId True media_id), close_session s')
         | (Inl e, s') \<Rightarrow>
             (JSONResponse 200 (ResultError False ''server_error'' (str_exn e)),
              close_session s'))"

section \<open>GET /api/media/{id} (get_media_by_id)\<close>

text \<open>No \<open>current_user\<close> dependency. The media type of the response is a constant.\<close>

definition get_media_by_id_try :: "int \<Rightarrow> session \<Rightarrow> exn + media" where
  "get_media_by_id_try ident s =
     (case scalar_one_or_none (filter (\<lambda>m. m_id m = ident) (medias (pending s))) of
        Inl e \<Rightarrow> Inl e
      | Inr None \<Rightarrow> Inl (HTTPException 404 ''Media not found'')
      | Inr (Some result) \<Rightarrow> Inr result)"

definition get_media_by_id :: "int \<Rightarrow> db \<Rightarrow> response \<times> db" where
  "get_media_by_id ident d =
     (let s = get_async_session d
      in case get_media_by_id_try ident s of
           Inr result \<Rightarrow> (Response 200 (m_data result) ''image/png'', close_session s)
         | Inl e \<Rightarrow>
             (JSONResponse 200 (ResultError False ''server_error'' (str_exn e)),
              close_session s))"

section \<open>DELETE /api/tweets/{id} (delete_by_id)\<close>

definition delete_by_id_try ::
  "int \<Rightarrow> current_user \<Rightarrow> session \<Rightarrow> (exn + unit) \<times> session" where
  "delete_by_id_try ident current_user s =
     (case scalar_one_or_none (filter (\<lambda>t. t_id t = ident) (tweets (pending s))) of
        Inl e \<Rightarrow> (Inl e, s)
      | Inr None \<Rightarrow> (Inl (HTTPException 404 ''Tweet not found''), s)
      | Inr (Some result) \<Rightarrow>
          (case attr_id current_user of
             Inl e \<Rightarrow> (Inl e, s)
           | Inr caller \<Rightarrow>
               if t_owner_id result = Some caller
               then (Inr (), commit (delete_tweet result s))
               else (Inl (HTTPException 403
                            ''You are not authorized to delete this tweet''), s)))"

definition delete_by_id :: "int \<Rightarrow> string option \<Rightarrow> db \<Rightarrow> response \<times> db" where
  "delete_by_id ident api_key d =
     (let s = get_async_session d;
          current_user = get_current_user api_key s
      in case delete_by_id_try ident current_user s of
           (Inr u, s') \<Rightarrow> (JSONResponse 200 (Result True), close_session s')
         | (Inl e, s') \<Rightarrow>
             (JSONResponse 200 (ResultError False ''server_error'' (str_exn e)),
              close_session s'))"

section \<open>POST /api/tweets/{id}/likes (likes_tweets)\<close>

definition likes_tweets_try ::
  "int \<Rightarrow> current_user \<Rightarrow> session \<Rightarrow> (exn + unit) \<times> session" where
  "likes_tweets_try ident current_user s =
     (case scalar_one_or_none (filter (\<lambda>t. t_id t = ident) (tweets (pending s))) of
        Inl e \<Rightarrow> (Inl e, s)
      | Inr None \<Rightarrow> (Inl (HTTPException 404 ''Tweet not found''), s)
      | Inr (Some result) \<Rightarrow>
          (case attr_id current_user of
             Inl e \<Rightarrow> (Inl e, s)
           | Inr caller \<Rightarrow>
               (let like_tweet = \<lparr>l_id = fresh_id (map l_id (likes (pending s))),
                                  l_user_id = Some caller,
                                  l_tweet_id = Some ident\<rparr>
                in (Inr (), commit (add_like like_tweet s)))))"

definition likes_tweets :: "int \<Rightarrow> string option \<Rightarrow> db \<Rightarrow> response \<times> db" where
  "likes_tweets ident api_key d =
     (let s = get_async_session d;
          current_user = get_current_user api_key s
      in case likes_tweets_try ident current_user s of
           (Inr u, s') \<Rightarrow> (JSONResponse 200 (Result True), close_session s')
         | (Inl e, s') \<Rightarrow>
             (JSONResponse 200 (ResultError False ''server_error'' (str_exn e)),
              close_session s'))"

section \<open>DELETE /api/tweets/{id}/likes (delete_likes_by_id)\<close>

definition delete_likes_by_id_try ::
  "int \<Rightarrow> current_user \<Rightarrow> session \<Rightarrow> (exn + unit) \<times> session" where
  "delete_likes_by_id_try ident current_user s =
     (case attr_id current_user of
        Inl e \<Rightarrow> (Inl e, s)
      | Inr caller \<Rightarrow>
          (case first (filter (\<lambda>l. l_user_id l = Some caller \<and> l_tweet_id l = Some ident)
                         (likes (pending s))) of
             None \<Rightarrow> (Inl (HTTPException 404 ''Like not found''), s)
           | Some like_tweet \<Rightarrow> (Inr (), commit (delete_like like_tweet s))))"

definition delete_likes_by_id :: "int \<Rightarrow> string option \<Rightarrow> db \<Rightarrow> response \<times> db" where
  "delete_likes_by_id ident api_key d =
     (let s = get_async_session d;
          current_user = get_current_user api_key s
      in case delete_likes_by_id_try ident current_user s of
           (Inr u, s') \<Rightarrow> (JSONResponse 200 (Result True), close_session s')
         | (Inl e, s') \<Rightarrow>
             (JSONResponse 200 (ResultError False ''server_error'' (str_exn e)),
              close_session s'))"

section \<open>POST and DELETE /api/users/{id}/follow\<close>

definition follow_user_by_id_try ::
  "int \<Rightarrow> current_user \<Rightarrow> session \<Rightarrow> (exn + unit) \<times> session" where
  "follow_user_by_id_try ident current_user s =
     (case scalar_one_or_none (filter (\<lambda>u. u_id u = ident) (users (pending s))) of
        Inl e \<Rightarrow> (Inl e, s)
      | Inr None \<Rightarrow> (Inl (HTTPException 404 ''User not found''), s)
      | Inr (Some result) \<Rightarrow>
          (case attr_id current_user of
             Inl e \<Rightarrow> (Inl e, s)
           | Inr caller \<Rightarrow>
               (let subscription = \<lparr>f_id = fresh_id (map f_id (followers (pending s))),
                                    f_follower_id = Some caller,
                                    f_following_id = Some ident\<rparr>
                in (Inr (), commit (add_follower subscription s)))))"

definition follow_user_by_id :: "int \<Rightarrow> string option \<Rightarrow> db \<Rightarrow> response \<times> db" where
  "follow_user_by_id ident api_key d =
     (let s = get_async_session d;
          current_user = get_current_user api_key s
      in case follow_user_by_id_try ident current_user s of
           (Inr u, s') \<Rightarrow> (JSONResponse 200 (Result True), close_session s')
         | (Inl e, s') \<Rightarrow>
             (JSONResponse 200 (ResultError False ''server_error'' (str_exn e)),
              close_session s'))"

definition delete_follow_by_id_try ::
  "int \<Rightarrow> current_user \<Rightarrow> session \<Rightarrow> (exn + unit) \<times> session" where
  "delete_follow_by_id_try ident current_user s =
     (case attr_id current_user of
        Inl e \<Rightarrow> (Inl e, s)
      | Inr caller \<Rightarrow>
          (case first (filter (\<lambda>f. f_follower_id f = Some caller \<and> f_following_id f = Some ident)
                         (followers (pending s))) of
             None \<Rightarrow> (Inl (HTTPException 404 ''Follower not found''), s)
           | Some subscription \<Rightarrow> (Inr (), commit (delete_follower subscription s))))"

definition delete_follow_by_id :: "int \<Rightarrow> string option \<Rightarrow> db \<Rightarrow> response \<times> db" where
  "delete_follow_by_id ident api_key d =
     (let s = get_async_session d;
          current_user = get_current_user api_key s
      in case delete_follow_by_id_try ident current_user s of
           (Inr u, s') \<Rightarrow> (JSONResponse 200 (Result True), close_session s')
         | (Inl e, s') \<Rightarrow>
             (JSONResponse 200 (ResultError False ''server_error'' (str_exn e)),
              close_session s'))"

section \<open>GET /api/tweets (read_tweets)\<close>

text \<open>
  \<open>like.user\<close> and \<open>tweet.owner\<close> are many-to-one relationships: the user with
  the referenced key, or \<open>None\<close>, on which \<open>.name\<close> and \<open>.id\<close> raise
  \<open>AttributeError\<close>. The handler never reads \<open>current_user\<close>. Its
  \<open>print(tweet.id)\<close> writes to the output of the process only and is left out.
\<close>

definition related_user :: "int option \<Rightarrow> user list \<Rightarrow> user option" where
  "related_user ref us = find (\<lambda>u. Some (u_id u) = ref) us"

fun like_list :: "like list \<Rightarrow> user list \<Rightarrow> exn + like_ref list" where
  "like_list [] us = Inr []"
| "like_list (l # ls) us =
     (case related_user (l_user_id l) us of
        None \<Rightarrow> Inl (AttributeError ''NoneType'' ''name'')
      | Some u \<Rightarrow>
          (case like_list ls us of
             Inl e \<Rightarrow> Inl e
           | Inr rest \<Rightarrow> Inr (LikeRef (l_user_id l) (u_name u) # rest)))"

definition tweet_entry :: "tweet \<Rightarrow> db \<Rightarrow> exn + tweet_dict" where
  "tweet_entry t d =
     (let attachments = map (\<lambda>m. ''/api/media/'' @ str_int (m_id m))
                          (filter (\<lambda>m. m_tweet_id m = Some (t_id t)) (medias d))
      in case like_list (filter (\<lambda>l. l_tweet_id l = Some (t_id t)) (likes d)) (users d) of
           Inl e \<Rightarrow> Inl e
         | Inr ll \<Rightarrow>
             (case related_user (t_owner_id t) (users d) of
                None \<Rightarrow> Inl (AttributeError ''NoneType'' ''id'')
              | Some owner \<Rightarrow>
                  Inr (TweetDict (t_id t) (t_content_text t) attachments
                         (UserRef (u_id owner) (u_name owner)) ll)))"

fun tweet_list :: "tweet list \<Rightarrow> db \<Rightarrow> exn + tweet_dict list" where
  "tweet_list [] d = Inr []"
| "tweet_list (t # ts) d =
     (case tweet_entry t d of
        Inl e \<Rightarrow> Inl e
      | Inr entry \<Rightarrow>
          (case tweet_list ts d of
             Inl e \<Rightarrow> Inl e
           | Inr rest \<Rightarrow> Inr (entry # rest)))"

definition read_tweets_try :: "current_user \<Rightarrow> session \<Rightarrow> exn + tweet_dict list" where
  "read_tweets_try current_user s = tweet_list (tweets (pending s)) (pending s)"

definition read_tweets :: "string option \<Rightarrow> db \<Rightarrow> response \<times> db" where
  "read_tweets api_key d =
     (let s = get_async_session d;
          current_user = get_current_user api_key s
      in case read_tweets_try current_user s of
           Inr entries \<Rightarrow> (JSONResponse 200 (ResultTweets True entries), close_session s)
         | Inl e \<Rightarrow>
             (JSONResponse 200 (ResultError False ''server_error'' (str_exn e)),
              close_session s))"

section \<open>GET /api/users/me and GET /api/users/{id}\<close>

definition followers_list :: "int \<Rightarrow> db \<Rightarrow> user_ref list" where
  "followers_list ident d =
     (let follower_ids = map f_follower_id
                           (filter (\<lambda>f. f_following_id f = Some ident) (followers d))
      in map (\<lambda>f. UserRef (u_id f) (u_name f))
           (filter (\<lambda>u. Some (u_id u) \<in> set follower_ids) (users d)))"

definition following_list :: "int \<Rightarrow> db \<Rightarrow> user_ref list" where
  "following_list ident d =
     (let following_ids = map f_following_id
                            (filter (\<lambda>f. f_follower_id f = Some ident) (followers d))
      in map (\<lambda>f. UserRef (u_id f) (u_name f))
           (filter (\<lambda>u. Some (u_id u) \<in> set following_ids) (users d)))"

definition read_user_try :: "current_user \<Rightarrow> session \<Rightarrow> exn + user_dict" where
  "read_user_try current_user s =
     (case attr_id current_user of
        Inl e \<Rightarrow> Inl e
      | Inr caller \<Rightarrow>
          (case scalar_one_or_none (filter (\<lambda>u. u_id u = caller) (users (pending s))) of
             Inl e \<Rightarrow> Inl e
           | Inr None \<Rightarrow> Inl (AttributeError ''NoneType'' ''id'')
           | Inr (Some u) \<Rightarrow>
               Inr (UserDict (u_id u) (u_name u)
                      (followers_list caller (pending s))
                      (following_list caller (pending s)))))"

definition read_user :: "string option \<Rightarrow> db \<Rightarrow> response \<times> db" where
  "read_user api_key d =
     (let s = get_async_session d;
          current_user = get_current_user api_key s
      in case read_user_try current_user s of
           Inr ud \<Rightarrow> (JSONResponse 200 (ResultUser True ud), close_session s)
         | Inl e \<Rightarrow>
             (JSONResponse 200 (ResultError False ''server_error'' (str_exn e)),
              close_session s))"

definition read_user_by_id_try :: "int \<Rightarrow> current_user \<Rightarrow> session \<Rightarrow> exn + user_dict" where
  "read_user_by_id_try ident current_user s =
     (case scalar_one_or_none (filter (\<lambda>u. u_id u = ident) (users (pending s))) of
        Inl e \<Rightarrow> Inl e
      | Inr None \<Rightarrow> Inl (HTTPException 404 ''User not found'')
      | Inr (Some u) \<Rightarrow>
          Inr (UserDict (u_id u) (u_name u)
                 (followers_list ident (pending s))
                 (following_list ident (pending s))))"

definition read_user_by_id :: "int \<Rightarrow> string option \<Rightarrow> db \<Rightarrow> response \<times> db" where
  "read_user_by_id ident api_key d =
     (let s = get_async_session d;
          current_user = get_current_user api_key s
      in case read_user_by_id_try ident current_user s of
           Inr ud \<Rightarrow> (JSONResponse 200 (ResultUser True ud), close_session s)
         | Inl e \<Rightarrow>
             (JSONResponse 200 (ResultError False ''server_error'' (str_exn e)),
              close_session s))"

section \<open>The routes\<close>

text \<open>The eleven routes of app.py, each with its path parameters, body and header.\<close>

datatype request =
    PostTweets tweet_create "string option"
  | PostMedias upload_file string "string option"
  | GetMedia int
  | DeleteTweet int "string option"
  | PostLikes int "string option"
  | DeleteLikes int "string option"
  | PostFollow int "string option"
  | DeleteFollow int "string option"
  | GetTweets "string option"
  | GetUsersMe "string option"
  | GetUser int "string option"

fun handle :: "request \<Rightarrow> db \<Rightarrow> response \<times> db" where
  "handle (PostTweets tweet api_key) d = create_tweet tweet api_key d"
| "handle (PostMedias f uuid4 api_key) d = create_media f uuid4 api_key d"
| "handle (GetMedia ident) d = get_media_by_id ident d"
| "handle (DeleteTweet ident api_key) d = delete_by_id ident api_key d"
| "handle (PostLikes ident api_key) d = likes_tweets ident api_key d"
| "handle (DeleteLikes ident api_key) d = delete_likes_by_id ident api_key d"
| "handle (PostFollow ident api_key) d = follow_user_by_id ident api_key d"
| "handle (DeleteFollow ident api_key) d = delete_follow_by_id ident api_key d"
| "handle (GetTweets api_key) d = read_tweets api_key d"
| "handle (GetUsersMe api_key) d = read_user api_key d"
| "handle (GetUser ident api_key) d = read_user_by_id ident api_key d"

text \<open>A sequence of requests, served one after the other.\<close>

fun serve :: "request list \<Rightarrow> db \<Rightarrow> db" where
  "serve [] d = d"
| "serve (r # rs) d = serve rs (snd (handle r d))"

text \<open>The exception, if any, that the \<open>try\<close> block of the route's handler raises.\<close>

definition raised_of :: "exn + 'a \<Rightarrow> exn option" where
  "raised_of r = (case r of Inl e \<Rightarrow> Some e | Inr v \<Rightarrow> None)"

fun raised :: "request \<Rightarrow> db \<Rightarrow> exn option" where
  "raised (PostTweets tweet api_key) d =
     (let s = get_async_session d
      in raised_of (fst (create_tweet_try tweet (get_current_user api_key s) s)))"
| "raised (PostMedias f uuid4 api_key) d =
     (let s = get_async_session d
      in raised_of (fst (create_media_try f uuid4 (get_current_user api_key s) s)))"
| "raised (GetMedia ident) d = raised_of (get_media_by_id_try ident (get_async_session d))"
| "raised (DeleteTweet ident api_key) d =
     (let s = get_async_session d
      in raised_of (fst (delete_by_id_try ident (get_current_user api_key s) s)))"
| "raised (PostLikes ident api_key) d =
     (let s = get_async_session d
      in raised_of (fst (likes_tweets_try ident (get_current_user api_key s) s)))"
| "raised (DeleteLikes ident api_key) d =
     (let s = get_async_session d
      in raised_of (fst (delete_likes_by_id_try ident (get_current_user api_key s) s)))"
| "raised (PostFollow ident api_key) d =
     (let s = get_async_session d
      in raised_of (fst (follow_user_by_id_try ident (get_current_user api_key s) s)))"
| "raised (DeleteFollow ident api_key) d =
     (let s = get_async_session d
      in raised_of (fst (delete_follow_by_id_try ident (get_current_user api_key s) s)))"
| "raised (GetTweets api_key) d =
     (let s = get_async_session d
      in raised_of (read_tweets_try (get_current_user api_key s) s))"
| "raised (GetUsersMe api_key) d =
     (let s = get_async_session d
      in raised_of (read_user_try (get_current_user api_key s) s))"
| "raised (GetUser ident api_key) d =
     (let s = get_async_session d
      in raised_of (read_user_by_id_try ident (get_current_user api_key s) s))"

section \<open>Constraints of the schema\<close>

text \<open>
  Primary keys are unique within their table, and \<open>User.api_key\<close> is declared
  \<open>unique=True\<close>, which bounds the rows with the same non-NULL key to one.
\<close>

definition primary_keys :: "db \<Rightarrow> bool" where
  "primary_keys d \<longleftrightarrow>
     distinct (map u_id (users d)) \<and> distinct (map t_id (tweets d)) \<and>
     distinct (map m_id (medias d)) \<and> distinct (map l_id (likes d)) \<and>
     distinct (map f_id (followers d))"

definition unique_api_keys :: "db \<Rightarrow> bool" where
  "unique_api_keys d \<longleftrightarrow>
     distinct (filter (\<lambda>k. k \<noteq> None) (map u_api_key (users d)))"

text \<open>
  \<open>Media.tweet_id\<close> is declared \<open>ForeignKey('tweets.id')\<close>: when it is not NULL it
  is the key of a tweet.
\<close>

definition media_foreign_key :: "db \<Rightarrow> bool" where
  "media_foreign_key d \<longleftrightarrow>
     list_all (\<lambda>m. case m_tweet_id m of
                     None \<Rightarrow> True
                   | Some ref \<Rightarrow> ref \<in> t_id ` set (tweets d)) (medias d)"

text \<open>A small store used to run the handlers on concrete requests.\<close>

definition user1 :: user where
  "user1 = \<lparr>u_id = 1, u_name = Some ''User1'', u_api_key = Some ''test-api-key1''\<rparr>"

definition user2 :: user where
  "user2 = \<lparr>u_id = 2, u_name = Some ''User2'', u_api_key = Some ''test-api-key2''\<rparr>"

definition tweet1 :: tweet where
  "tweet1 = \<lparr>t_id = 1, t_content_text = Some ''Hello, world!'', t_owner_id = Some 1\<rparr>"

definition media1 :: media where
  "media1 = \<lparr>m_id = 1, m_data = ''image content'', m_file_name = ''test.jpg'',
              m_tweet_id = Some 1\<rparr>"

definition like1 :: like where
  "like1 = \<lparr>l_id = 1, l_user_id = Some 2, l_tweet_id = Some 1\<rparr>"

definition db0 :: db where
  "db0 = \<lparr>users = [user1, user2], tweets = [tweet1], medias = [media1],
           likes = [like1], followers = []\<rparr>"

definition upload1 :: upload_file where
  "upload1 = \<lparr>filename = ''photo.jpeg'', content_type = Some ''image/jpeg'',
               file_read = ''raw bytes''\<rparr>"

section \<open>Auxiliary facts\<close>

lemma foldr_max_upper: "x \<in> set ids \<Longrightarrow> x \<le> foldr max ids (0::int)"
  by (induction ids) auto

lemma fresh_id_notin: "fresh_id ids \<notin> set ids"
proof
  assume "fresh_id ids \<in> set ids"
  then have "fresh_id ids \<le> foldr max ids 0" by (rule foldr_max_upper)
  then show False by (simp add: fresh_id_def)
qed

lemma filter_key_unique:
  "distinct (map f xs) \<Longrightarrow> x \<in> set xs \<Longrightarrow> filter (\<lambda>y. f y = f x) xs = [x]"
proof (induction xs)
  case Nil
  then show ?case by simp
next
  case (Cons a xs)
  show ?case
  proof (cases "a = x")
    case True
    from Cons.prems have "f x \<notin> f ` set xs" using True by simp
    then have "\<forall>y\<in>set xs. f y \<noteq> f x" by (metis imageI)
    then have "filter (\<lambda>y. f y = f x) xs = []" by (simp add: filter_empty_conv)
    with True show ?thesis by simp
  next
    case False
    with Cons.prems have "x \<in> set xs" by simp
    moreover from Cons.prems this have "f a \<noteq> f x" by auto
    ultimately show ?thesis using Cons by simp
  qed
qed

lemma filter_key_absent:
  "a \<notin> f ` set xs \<Longrightarrow> filter (\<lambda>y. f y = a) xs = []"
  by (auto simp: filter_empty_conv)

lemma filter_api_key_unique:
  "distinct (filter (\<lambda>k. k \<noteq> None) (map f xs)) \<Longrightarrow> x \<in> set xs \<Longrightarrow> f x = Some k
   \<Longrightarrow> filter (\<lambda>y. f y = Some k) xs = [x]"
proof (induction xs)
  case Nil
  then show ?case by simp
next
  case (Cons a xs)
  show ?case
  proof (cases "a = x")
    case True
    from Cons.prems True have "Some k \<notin> set (filter (\<lambda>k. k \<noteq> None) (map f xs))" by simp
    then have "Some k \<notin> f ` set xs" by auto
    then have "\<forall>y\<in>set xs. f y \<noteq> Some k" by (metis imageI)
    then have "filter (\<lambda>y. f y = Some k) xs = []" by (simp add: filter_empty_conv)
    with True Cons.prems show ?thesis by simp
  next
    case False
    with Cons.prems have xin: "x \<in> set xs" by simp
    with Cons.prems have "Some k \<in> set (filter (\<lambda>k. k \<noteq> None) (map f xs))" by force
    with Cons.prems have "f a \<noteq> Some k" by (cases "f a") auto
    moreover from Cons.prems have "distinct (filter (\<lambda>k. k \<noteq> None) (map f xs))"
      by (simp split: if_splits)
    ultimately show ?thesis using Cons.IH Cons.prems(3) xin by simp
  qed
qed

lemma get_current_user_valid:
  assumes "unique_api_keys d" and "u \<in> set (users d)" and "u_api_key u = Some k"
  shows "get_current_user (Some k) (get_async_session d) = UserObj u"
proof -
  have "filter (\<lambda>y. u_api_key y = Some k) (users d) = [u]"
    using assms unfolding unique_api_keys_def by (intro filter_api_key_unique) auto
  then show ?thesis
    by (simp add: get_current_user_def get_current_user_try_def get_async_session_def)
qed

lemma get_current_user_invalid:
  assumes "api_key \<notin> u_api_key ` set (users d)"
  shows "get_current_user api_key (get_async_session d) =
           Dict (ResultError False ''server_error'' (str_exn (HTTPException 403 ''Invalid API Key'')))"
proof -
  have "filter (\<lambda>y. u_api_key y = api_key) (users d) = []"
    using assms by (rule filter_key_absent)
  then show ?thesis
    by (simp add: get_current_user_def get_current_user_try_def get_async_session_def)
qed

lemmas handler_defs =
  create_tweet_def create_media_def get_media_by_id_def delete_by_id_def likes_tweets_def
  delete_likes_by_id_def follow_user_by_id_def delete_follow_by_id_def read_tweets_def
  read_user_def read_user_by_id_def

lemma get_handlers_snd:
  "snd (read_tweets api_key d) = d" "snd (get_media_by_id ident d) = d"
  "snd (read_user api_key d) = d" "snd (read_user_by_id ident api_key d) = d"
  by (simp_all add: handler_defs Let_def close_session_def get_async_session_def
        split: sum.splits)

lemma attach_media_users:
  "users (pending s) = U \<Longrightarrow> users (committed s) = U \<Longrightarrow>
   users (pending (snd (attach_media tid ids s))) = U \<and>
   users (committed (snd (attach_media tid ids s))) = U"
proof (induction ids arbitrary: s)
  case Nil
  then show ?case by simp
next
  case (Cons a ids)
  show ?case
  proof (cases "scalar_one_or_none (filter (\<lambda>m. m_id m = a) (medias (pending s)))")
    case (Inl e)
    with Cons.prems show ?thesis by simp
  next
    case (Inr found)
    show ?thesis
    proof (cases found)
      case None
      with Inr Cons.prems show ?thesis by (simp add: rollback_def)
    next
      case (Some result_media)
      let ?s = "commit (set_media_tweet_id result_media (Some tid) s)"
      have "users (pending ?s) = U" "users (committed ?s) = U"
        using Cons.prems by (simp_all add: commit_def set_media_tweet_id_def)
      from Cons.IH [OF this] Inr Some show ?thesis by simp
    qed
  qed
qed

lemma handle_users: "users (snd (handle r d)) = users d"
proof (cases r)
  case (PostTweets tweet api_key)
  have "users (committed (snd (create_tweet_try tweet cu (get_async_session d)))) = users d" for cu
  proof (cases "attr_id cu")
    case (Inl e)
    then show ?thesis by (simp add: create_tweet_try_def get_async_session_def)
  next
    case (Inr owner)
    let ?tid = "fresh_id (map t_id (tweets (pending (get_async_session d))))"
    let ?s1 = "commit (add_tweet \<lparr>t_id = ?tid,
        t_content_text = Some (tweet_data tweet), t_owner_id = Some owner\<rparr> (get_async_session d))"
    have u: "users (pending ?s1) = users d" "users (committed ?s1) = users d"
      by (simp_all add: commit_def add_tweet_def get_async_session_def)
    show ?thesis
    proof (cases "tweet_media_ids tweet")
      case None
      with Inr u show ?thesis by (simp add: create_tweet_try_def Let_def)
    next
      case (Some ids)
      obtain r s2 where a: "attach_media ?tid ids ?s1 = (r, s2)"
        by (cases "attach_media ?tid ids ?s1")
      from attach_media_users [OF u, of ?tid ids] a have "users (committed s2) = users d"
        by simp
      with Inr Some a show ?thesis
        by (cases r) (simp_all add: create_tweet_try_def Let_def)
    qed
  qed
  moreover have "snd (create_tweet tweet api_key d) =
      committed (snd (create_tweet_try tweet
        (get_current_user api_key (get_async_session d)) (get_async_session d)))"
    by (simp add: create_tweet_def Let_def close_session_def split: prod.splits sum.splits)
  ultimately show ?thesis using PostTweets by simp
next
  case (PostMedias f uuid4 api_key)
  then show ?thesis
    by (simp add: create_media_def create_media_try_def Let_def close_session_def commit_def
          add_media_def get_async_session_def)
next
  case (GetMedia ident)
  then show ?thesis by (simp add: get_handlers_snd)
next
  case (DeleteTweet ident api_key)
  then show ?thesis
    by (auto simp: delete_by_id_def delete_by_id_try_def Let_def close_session_def commit_def
          delete_tweet_def get_async_session_def split: sum.splits option.splits)
next
  case (PostLikes ident api_key)
  then show ?thesis
    by (auto simp: likes_tweets_def likes_tweets_try_def Let_def close_session_def commit_def
          add_like_def get_async_session_def split: sum.splits option.splits)
next
  case (DeleteLikes ident api_key)
  then show ?thesis
    by (auto simp: delete_likes_by_id_def delete_likes_by_id_try_def Let_def close_session_def
          commit_def delete_like_def get_async_session_def split: sum.splits option.splits)
next
  case (PostFollow ident api_key)
  then show ?thesis
    by (auto simp: follow_user_by_id_def follow_user_by_id_try_def Let_def close_session_def
          commit_def add_follower_def get_async_session_def split: sum.splits option.splits)
next
  case (DeleteFollow ident api_key)
  then show ?thesis
    by (auto simp: delete_follow_by_id_def delete_follow_by_id_try_def Let_def close_session_def
          commit_def delete_follower_def get_async_session_def split: sum.splits option.splits)
next
  case (GetTweets api_key)
  then show ?thesis by (simp add: get_handlers_snd)
next
  case (GetUsersMe api_key)
  then show ?thesis by (simp add: get_handlers_snd)
next
  case (GetUser ident api_key)
  then show ?thesis by (simp add: get_handlers_snd)
qed

lemma fresh_id_notin_image: "fresh_id (map f xs) \<notin> f ` set xs"
  using fresh_id_notin [of "map f xs"] by simp

lemma read_tweets_ignores_key: "read_tweets api_key d = read_tweets api_key' d"
  by (simp add: read_tweets_def read_tweets_try_def Let_def)

lemma get_async_session_simps:
  "committed (get_async_session d) = d" "pending (get_async_session d) = d"
  by (simp_all add: get_async_session_def)

lemma delete_by_id_absent:
  assumes "ident \<notin> t_id ` set (tweets d)"
  shows "delete_by_id_try ident cu (get_async_session d) =
           (Inl (HTTPException 404 ''Tweet not found''), get_async_session d)"
proof -
  have "filter (\<lambda>t. t_id t = ident) (tweets d) = []" using assms by (rule filter_key_absent)
  then show ?thesis by (simp add: delete_by_id_try_def get_async_session_def)
qed

lemma delete_by_id_found:
  assumes "distinct (map t_id (tweets d))" and "t \<in> set (tweets d)"
  shows "delete_by_id_try (t_id t) (UserObj u) (get_async_session d) =
           (if t_owner_id t = Some (u_id u)
            then (Inr (), commit (delete_tweet t (get_async_session d)))
            else (Inl (HTTPException 403 ''You are not authorized to delete this tweet''),
                  get_async_session d))"
proof -
  have "filter (\<lambda>y. t_id y = t_id t) (tweets d) = [t]"
    using assms by (rule filter_key_unique)
  then show ?thesis by (simp add: delete_by_id_try_def get_async_session_def)
qed

lemma first_filter_Some:
  "first (filter P xs) = Some x \<Longrightarrow> x \<in> set xs \<and> P x"
proof -
  assume a: "first (filter P xs) = Some x"
  then obtain rest where "filter P xs = x # rest" by (cases "filter P xs") auto
  then have "x \<in> set (filter P xs)" by simp
  then show ?thesis by simp
qed

lemma first_filter_None:
  "first (filter P xs) = None \<longleftrightarrow> (\<forall>x\<in>set xs. \<not> P x)"
  by (induction xs) auto

lemma filter_key_remove1:
  "distinct (map f xs) \<Longrightarrow> x \<in> set xs \<Longrightarrow> filter (\<lambda>y. f y \<noteq> f x) xs = remove1 x xs"
proof (induction xs)
  case Nil
  then show ?case by simp
next
  case (Cons a xs)
  show ?case
  proof (cases "a = x")
    case True
    from Cons.prems True have "f x \<notin> f ` set xs" by simp
    then have "\<forall>y\<in>set xs. f y \<noteq> f x" by (metis imageI)
    then have "filter (\<lambda>y. f y \<noteq> f x) xs = xs" by (simp add: filter_id_conv)
    with True show ?thesis by simp
  next
    case False
    with Cons.prems have xin: "x \<in> set xs" by simp
    with Cons.prems have "f a \<noteq> f x" by auto
    with Cons xin False show ?thesis by simp
  qed
qed

lemma length_filter_remove1:
  "x \<in> set xs \<Longrightarrow> P x \<Longrightarrow> length (filter P (remove1 x xs)) + 1 = length (filter P xs)"
  by (induction xs) auto

lemma likes_tweets_ok:
  assumes "distinct (map t_id (tweets d))" and "unique_api_keys d"
    and "u \<in> set (users d)" and "u_api_key u = Some k" and "ident \<in> t_id ` set (tweets d)"
  shows "likes_tweets ident (Some k) d =
           (JSONResponse 200 (Result True),
            d\<lparr>likes := likes d @ [\<lparr>l_id = fresh_id (map l_id (likes d)),
                                    l_user_id = Some (u_id u), l_tweet_id = Some ident\<rparr>]\<rparr>)"
proof -
  have cu: "get_current_user (Some k) (get_async_session d) = UserObj u"
    using assms(2-4) by (rule get_current_user_valid)
  from assms(5) obtain t where t: "t \<in> set (tweets d)" "t_id t = ident" by auto
  have "filter (\<lambda>y. t_id y = t_id t) (tweets d) = [t]"
    using assms(1) t(1) by (rule filter_key_unique)
  with t(2) have f: "filter (\<lambda>y. t_id y = ident) (tweets d) = [t]"
    by simp
  show ?thesis
    by (simp add: likes_tweets_def likes_tweets_try_def cu f Let_def close_session_def
          commit_def add_like_def get_async_session_simps)
qed

lemma delete_likes_by_id_result:
  assumes "unique_api_keys d" and "u \<in> set (users d)" and "u_api_key u = Some k"
  shows "delete_likes_by_id ident (Some k) d =
           (case first (filter (\<lambda>l. l_user_id l = Some (u_id u) \<and> l_tweet_id l = Some ident)
                          (likes d)) of
              None \<Rightarrow> (JSONResponse 200 (ResultError False ''server_error''
                          (str_exn (HTTPException 404 ''Like not found''))), d)
            | Some x \<Rightarrow> (JSONResponse 200 (Result True),
                          d\<lparr>likes := filter (\<lambda>l. l_id l \<noteq> l_id x) (likes d)\<rparr>))"
proof -
  have cu: "get_current_user (Some k) (get_async_session d) = UserObj u"
    using assms by (rule get_current_user_valid)
  show ?thesis
    by (simp add: delete_likes_by_id_def delete_likes_by_id_try_def cu Let_def close_session_def
          commit_def delete_like_def get_async_session_simps split: option.splits)
qed

lemma delete_likes_by_id_raised:
  assumes "unique_api_keys d" and "u \<in> set (users d)" and "u_api_key u = Some k"
    and "\<forall>l\<in>set (likes d). \<not> (l_user_id l = Some (u_id u) \<and> l_tweet_id l = Some ident)"
  shows "raised (DeleteLikes ident (Some k)) d = Some (HTTPException 404 ''Like not found'')"
proof -
  have cu: "get_current_user (Some k) (get_async_session d) = UserObj u"
    using assms(1-3) by (rule get_current_user_valid)
  have "first (filter (\<lambda>l. l_user_id l = Some (u_id u) \<and> l_tweet_id l = Some ident) (likes d))
        = None"
    using assms(4) by (simp add: first_filter_None)
  then show ?thesis
    by (simp add: raised_of_def delete_likes_by_id_try_def cu Let_def get_async_session_simps)
qed

lemma attach_media_append:
  "attach_media tid (xs @ ys) s =
     (case attach_media tid xs s of
        (Inl e, s') \<Rightarrow> (Inl e, s')
      | (Inr u, s') \<Rightarrow> attach_media tid ys s')"
  by (induction xs arbitrary: s) (simp_all split: sum.splits option.splits)

lemma attach_media_missing:
  assumes "a \<notin> m_id ` set (medias (pending s))"
  shows "attach_media tid (a # rest) s =
           (Inl (HTTPException 404 ''Media not found''), rollback s)"
proof -
  have "filter (\<lambda>m. m_id m = a) (medias (pending s)) = []"
    using assms by (rule filter_key_absent)
  then show ?thesis by simp
qed

lemma attach_media_all:
  "distinct (map m_id (medias (pending s))) \<Longrightarrow>
   set ids \<subseteq> m_id ` set (medias (pending s)) \<Longrightarrow> committed s = pending s \<Longrightarrow>
   attach_media tid ids s =
     (Inr (),
      \<lparr>committed = (pending s)\<lparr>medias :=
           map (\<lambda>m. if m_id m \<in> set ids then m\<lparr>m_tweet_id := Some tid\<rparr> else m)
             (medias (pending s))\<rparr>,
       pending = (pending s)\<lparr>medias :=
           map (\<lambda>m. if m_id m \<in> set ids then m\<lparr>m_tweet_id := Some tid\<rparr> else m)
             (medias (pending s))\<rparr>\<rparr>)"
proof (induction ids arbitrary: s)
  case Nil
  then show ?case by (cases s) simp
next
  case (Cons a ids)
  from Cons.prems(2) obtain x where x: "x \<in> set (medias (pending s))" "m_id x = a" by auto
  have "filter (\<lambda>y. m_id y = m_id x) (medias (pending s)) = [x]"
    using Cons.prems(1) x(1) by (rule filter_key_unique)
  with x(2) have f: "filter (\<lambda>y. m_id y = a) (medias (pending s)) = [x]" by simp
  let ?s' = "commit (set_media_tweet_id x (Some tid) s)"
  have p: "pending ?s' = (pending s)\<lparr>medias :=
      map (\<lambda>m. if m_id m = a then m\<lparr>m_tweet_id := Some tid\<rparr> else m) (medias (pending s))\<rparr>"
    and c: "committed ?s' = pending ?s'"
    using x(2) by (simp_all add: commit_def set_media_tweet_id_def)
  have ids: "map m_id (medias (pending ?s')) = map m_id (medias (pending s))"
    by (simp add: p o_def)
  have d: "distinct (map m_id (medias (pending ?s')))" using Cons.prems(1) by (simp only: ids)
  have sub: "set ids \<subseteq> m_id ` set (medias (pending ?s'))"
    using Cons.prems(2) ids by (metis list.set_map set_subset_Cons subset_trans)
  have step: "attach_media tid (a # ids) s = attach_media tid ids ?s'" by (simp add: f)
  have m: "map (\<lambda>m. if m_id m \<in> set ids then m\<lparr>m_tweet_id := Some tid\<rparr> else m)
             (map (\<lambda>m. if m_id m = a then m\<lparr>m_tweet_id := Some tid\<rparr> else m) ms) =
           map (\<lambda>m. if m_id m \<in> set (a # ids) then m\<lparr>m_tweet_id := Some tid\<rparr> else m) ms" for ms
    by (induction ms) auto
  show ?case
    unfolding step Cons.IH [OF d sub c] by (simp add: p m)
qed

lemma create_tweet_try_attached:
  assumes "distinct (map m_id (medias d))" and "tweet_media_ids tweet = Some ids"
    and "set ids \<subseteq> m_id ` set (medias d)"
  shows "create_tweet_try tweet (UserObj u) (get_async_session d) =
           (Inr (fresh_id (map t_id (tweets d))),
            get_async_session
              (d\<lparr>tweets := tweets d @ [\<lparr>t_id = fresh_id (map t_id (tweets d)),
                                        t_content_text = Some (tweet_data tweet),
                                        t_owner_id = Some (u_id u)\<rparr>],
                 medias := map (\<lambda>m. if m_id m \<in> set ids
                                     then m\<lparr>m_tweet_id := Some (fresh_id (map t_id (tweets d)))\<rparr>
                                     else m) (medias d)\<rparr>))"
proof -
  let ?tid = "fresh_id (map t_id (tweets d))"
  let ?new = "\<lparr>t_id = ?tid, t_content_text = Some (tweet_data tweet),
                t_owner_id = Some (u_id u)\<rparr>"
  let ?s1 = "commit (add_tweet ?new (get_async_session d))"
  have p: "pending ?s1 = d\<lparr>tweets := tweets d @ [?new]\<rparr>" and c: "committed ?s1 = pending ?s1"
    by (simp_all add: commit_def add_tweet_def get_async_session_simps)
  have dm: "distinct (map m_id (medias (pending ?s1)))" using assms(1) by (simp add: p)
  have sub: "set ids \<subseteq> m_id ` set (medias (pending ?s1))" using assms(3) by (simp add: p)
  have a: "attach_media ?tid ids ?s1 =
      (Inr (), get_async_session (d\<lparr>tweets := tweets d @ [?new],
         medias := map (\<lambda>m. if m_id m \<in> set ids then m\<lparr>m_tweet_id := Some ?tid\<rparr> else m)
                     (medias d)\<rparr>))"
    unfolding attach_media_all [OF dm sub c] p by (simp add: get_async_session_def)
  show ?thesis
    using a by (simp add: create_tweet_try_def assms(2) Let_def get_async_session_simps)
qed

lemma create_tweet_try_missing:
  assumes "distinct (map m_id (medias d))" and "tweet_media_ids tweet = Some (pre @ bad # post)"
    and "set pre \<subseteq> m_id ` set (medias d)" and "bad \<notin> m_id ` set (medias d)"
  shows "create_tweet_try tweet (UserObj u) (get_async_session d) =
           (Inl (HTTPException 404 ''Media not found''),
            get_async_session
              (d\<lparr>tweets := tweets d @ [\<lparr>t_id = fresh_id (map t_id (tweets d)),
                                        t_content_text = Some (tweet_data tweet),
                                        t_owner_id = Some (u_id u)\<rparr>],
                 medias := map (\<lambda>m. if m_id m \<in> set pre
                                     then m\<lparr>m_tweet_id := Some (fresh_id (map t_id (tweets d)))\<rparr>
                                     else m) (medias d)\<rparr>))"
proof -
  let ?tid = "fresh_id (map t_id (tweets d))"
  let ?new = "\<lparr>t_id = ?tid, t_content_text = Some (tweet_data tweet),
                t_owner_id = Some (u_id u)\<rparr>"
  let ?s1 = "commit (add_tweet ?new (get_async_session d))"
  let ?d2 = "d\<lparr>tweets := tweets d @ [?new],
         medias := map (\<lambda>m. if m_id m \<in> set pre then m\<lparr>m_tweet_id := Some ?tid\<rparr> else m)
                     (medias d)\<rparr>"
  have p: "pending ?s1 = d\<lparr>tweets := tweets d @ [?new]\<rparr>" and c: "committed ?s1 = pending ?s1"
    by (simp_all add: commit_def add_tweet_def get_async_session_simps)
  have dm: "distinct (map m_id (medias (pending ?s1)))" using assms(1) by (simp add: p)
  have sub: "set pre \<subseteq> m_id ` set (medias (pending ?s1))" using assms(3) by (simp add: p)
  have a: "attach_media ?tid pre ?s1 = (Inr (), get_async_session ?d2)"
    unfolding attach_media_all [OF dm sub c] p by (simp add: get_async_session_def)
  have "map m_id (medias ?d2) = map m_id (medias d)" by (simp add: o_def)
  then have "m_id ` set (medias ?d2) = m_id ` set (medias d)" by (metis list.set_map)
  with assms(4) have "bad \<notin> m_id ` set (medias ?d2)" by blast
  then have "bad \<notin> m_id ` set (medias (pending (get_async_session ?d2)))"
    unfolding get_async_session_simps .
  then have b: "attach_media ?tid (bad # post) (get_async_session ?d2) =
      (Inl (HTTPException 404 ''Media not found''), rollback (get_async_session ?d2))"
    by (rule attach_media_missing)
  have r: "rollback (get_async_session ?d2) = get_async_session ?d2"
    by (simp add: rollback_def get_async_session_def)
  have "attach_media ?tid (pre @ bad # post) ?s1 =
      (Inl (HTTPException 404 ''Media not found''), get_async_session ?d2)"
    by (simp only: attach_media_append a b r prod.case sum.case)
  then show ?thesis
    by (simp add: create_tweet_try_def assms(2) Let_def get_async_session_simps)
qed

lemma create_tweet_by_try:
  assumes "unique_api_keys d" and "u \<in> set (users d)" and "u_api_key u = Some k"
  shows "create_tweet tweet (Some k) d =
           (case create_tweet_try tweet (UserObj u) (get_async_session d) of
              (Inr tweet_id, s') \<Rightarrow>
                (JSONResponse 200 (ResultTweetId True tweet_id), close_session s')
            | (Inl e, s') \<Rightarrow>
                (JSONResponse 200 (ResultError False ''server_error'' (str_exn e)),
                 close_session s'))"
  and "raised (PostTweets tweet (Some k)) d =
         raised_of (fst (create_tweet_try tweet (UserObj u) (get_async_session d)))"
  using get_current_user_valid [OF assms] by (simp_all add: create_tweet_def Let_def)

lemma count_attached:
  assumes "distinct (map m_id ms)" and "S \<subseteq> m_id ` set ms" and "finite S"
    and "\<forall>m\<in>set ms. m_tweet_id m \<noteq> Some tid"
  shows "length (filter (\<lambda>m. m_tweet_id m = Some tid)
           (map (\<lambda>m. if m_id m \<in> S then m\<lparr>m_tweet_id := Some tid\<rparr> else m) ms)) = card S"
proof -
  have "filter (\<lambda>m. m_tweet_id m = Some tid)
           (map (\<lambda>m. if m_id m \<in> S then m\<lparr>m_tweet_id := Some tid\<rparr> else m) ms) =
        map (\<lambda>m. if m_id m \<in> S then m\<lparr>m_tweet_id := Some tid\<rparr> else m)
          (filter (\<lambda>m. m_id m \<in> S) ms)"
    using assms(4) by (induction ms) auto
  then have "length (filter (\<lambda>m. m_tweet_id m = Some tid)
           (map (\<lambda>m. if m_id m \<in> S then m\<lparr>m_tweet_id := Some tid\<rparr> else m) ms)) =
        length (filter (\<lambda>i. i \<in> S) (map m_id ms))"
    by (simp add: filter_map o_def)
  also have "\<dots> = card ({i. i \<in> S} \<inter> set (map m_id ms))"
    using assms(1) by (rule distinct_length_filter)
  also have "{i. i \<in> S} \<inter> set (map m_id ms) = S" using assms(2) by auto
  finally show ?thesis .
qed

lemma create_tweet_all_valid:
  assumes "distinct (map m_id (medias d))" and "unique_api_keys d"
    and "u \<in> set (users d)" and "u_api_key u = Some k"
    and "tweet_media_ids tweet = Some ids" and "set ids \<subseteq> m_id ` set (medias d)"
  shows "create_tweet tweet (Some k) d =
        (JSONResponse 200 (ResultTweetId True (fresh_id (map t_id (tweets d)))),
         d\<lparr>tweets := tweets d @ [\<lparr>t_id = fresh_id (map t_id (tweets d)),
                                   t_content_text = Some (tweet_data tweet),
                                   t_owner_id = Some (u_id u)\<rparr>],
           medias := map (\<lambda>m. if m_id m \<in> set ids
                               then m\<lparr>m_tweet_id := Some (fresh_id (map t_id (tweets d)))\<rparr>
                               else m) (medias d)\<rparr>)"
  unfolding create_tweet_by_try(1) [OF assms(2-4)]
    create_tweet_try_attached [OF assms(1,5,6)]
  by (simp add: close_session_def get_async_session_simps)

lemma create_tweet_first_missing:
  assumes "distinct (map m_id (medias d))" and "unique_api_keys d"
    and "u \<in> set (users d)" and "u_api_key u = Some k"
    and "tweet_media_ids tweet = Some (pre @ bad # post)"
    and "set pre \<subseteq> m_id ` set (medias d)" and "bad \<notin> m_id ` set (medias d)"
  shows "create_tweet tweet (Some k) d =
        (JSONResponse 200 (ResultError False ''server_error''
           (str_exn (HTTPException 404 ''Media not found''))),
         d\<lparr>tweets := tweets d @ [\<lparr>t_id = fresh_id (map t_id (tweets d)),
                                   t_content_text = Some (tweet_data tweet),
                                   t_owner_id = Some (u_id u)\<rparr>],
           medias := map (\<lambda>m. if m_id m \<in> set pre
                               then m\<lparr>m_tweet_id := Some (fresh_id (map t_id (tweets d)))\<rparr>
                               else m) (medias d)\<rparr>)"
    and "raised (PostTweets tweet (Some k)) d = Some (HTTPException 404 ''Media not found'')"
  unfolding create_tweet_by_try [OF assms(2-4)]
    create_tweet_try_missing [OF assms(1,5,6,7)]
  by (simp_all add: close_session_def get_async_session_simps raised_of_def)

section \<open>Error envelope, frame of the GET routes, the users table\<close>

text \<open>
  Claim C3. Whatever exception the \<open>try\<close> block of a route's handler raises,
  the explicit 404, 403 and 400 raises included, the response is an HTTP 200 body
  \<open>{result: false, error_type: "server_error", error_message: str(e)}\<close>; the
  shape is the same for all eleven routes.
\<close>

theorem server_error_envelope:
  assumes "raised r d = Some e"
  shows "fst (handle r d) = JSONResponse 200 (ResultError False ''server_error'' (str_exn e))"
  using assms
  by (cases r) (auto simp: raised_of_def handler_defs Let_def split: sum.splits prod.splits)

theorem server_error_envelope_witness:
  "raised (GetMedia 5) db0 = Some (HTTPException 404 ''Media not found'') \<and>
   fst (handle (GetMedia 5) db0) =
     JSONResponse 200 (ResultError False ''server_error'' ''404: Media not found'')"
proof -
  have r: "raised (GetMedia 5) db0 = Some (HTTPException 404 ''Media not found'')"
    by (simp add: raised_of_def get_media_by_id_try_def get_async_session_def db0_def media1_def)
  have s: "str_exn (HTTPException 404 ''Media not found'') = ''404: Media not found''"
    by code_simp
  from server_error_envelope [OF r] r s show ?thesis by simp
qed

text \<open>
  Claim C9. The four GET routes (tweet feed, media by id, own profile, profile by id)
  leave the store as it was, whether they succeed or fail.
\<close>

theorem get_endpoints_frame:
  "snd (read_tweets api_key d) = d \<and> snd (get_media_by_id ident d) = d \<and>
   snd (read_user api_key d) = d \<and> snd (read_user_by_id ident api_key d) = d"
  by (simp add: handler_defs Let_def close_session_def get_async_session_def split: sum.splits)

theorem get_endpoints_frame_witness:
  "snd (read_tweets (Some ''wrong-key'') db0) = db0 \<and> snd (get_media_by_id 5 db0) = db0 \<and>
   snd (read_user (Some ''wrong-key'') db0) = db0 \<and>
   snd (read_user_by_id 5 (Some ''wrong-key'') db0) = db0"
  using get_endpoints_frame [of "Some ''wrong-key''" db0 5] by simp

text \<open>
  Claim C10. No route inserts, deletes or modifies a user: after any sequence of
  requests the users table is the initial one.
\<close>

theorem users_never_change: "users (serve rs d) = users d"
  by (induction rs arbitrary: d) (simp_all add: handle_users)

theorem users_never_change_witness:
  "users (serve [PostLikes 1 (Some ''test-api-key2''), DeleteTweet 1 (Some ''test-api-key1''),
                 PostFollow 2 (Some ''test-api-key1'')] db0) = [user1, user2]"
  using users_never_change [of "[PostLikes 1 (Some ''test-api-key2''),
    DeleteTweet 1 (Some ''test-api-key1''), PostFollow 2 (Some ''test-api-key1'')]" db0]
  by (simp add: db0_def)

section \<open>Authentication and media retrieval\<close>

text \<open>
  Claim C1. The claim: a request whose api-key header matches no user, or has no
  header, fails with HTTP status 403. The handlers run on such requests: the 403
  raised in \<open>get_current_user\<close> is caught by the \<open>except\<close> clause of the same
  function, the error dictionary becomes \<open>current_user\<close>, and the routes that never
  read \<open>current_user\<close> answer as for a known caller. Evaluated here on the store
  \<open>db0\<close>, with an unknown key and without a header.
\<close>

theorem invalid_key_not_rejected:
  "get_current_user_try (Some ''wrong-key'') (get_async_session db0) =
     Inl (HTTPException 403 ''Invalid API Key'') \<and>
   get_current_user (Some ''wrong-key'') (get_async_session db0) =
     Dict (ResultError False ''server_error'' ''403: Invalid API Key'') \<and>
   get_current_user None (get_async_session db0) =
     Dict (ResultError False ''server_error'' ''403: Invalid API Key'') \<and>
   fst (read_tweets (Some ''wrong-key'') db0) =
     JSONResponse 200 (ResultTweets True
       [TweetDict 1 (Some ''Hello, world!'') [''/api/media/1'']
          (UserRef 1 (Some ''User1'')) [LikeRef (Some 2) (Some ''User2'')]]) \<and>
   fst (read_user_by_id 2 None db0) =
     JSONResponse 200 (ResultUser True (UserDict 2 (Some ''User2'') [] [])) \<and>
   fst (create_media upload1 ''0b5e'' None db0) = JSONResponse 200 (ResultMediaId True 2)"
  by code_simp

text \<open>
  Media retrieval by id on any store with unique media keys: without a row of that id
  the \<open>try\<close> block raises the 404 \<open>HTTPException\<close>, and the response is the
  HTTP 200 error body; with such a row the response carries the stored bytes with
  content type \<open>image/png\<close>, whatever the file name of the row and whatever the
  content type declared at upload; the store is unchanged and no caller is looked up.
\<close>

lemma media_retrieval:
  assumes "distinct (map m_id (medias d))"
  shows "(ident \<notin> m_id ` set (medias d) \<longrightarrow>
            raised (GetMedia ident) d = Some (HTTPException 404 ''Media not found'') \<and>
            get_media_by_id ident d =
              (JSONResponse 200 (ResultError False ''server_error''
                 (str_exn (HTTPException 404 ''Media not found''))), d)) \<and>
         (\<forall>m\<in>set (medias d). m_id m = ident \<longrightarrow>
            get_media_by_id ident d = (Response 200 (m_data m) ''image/png'', d)) \<and>
         (content_type f \<in> {Some ''image/jpeg'', Some ''image/png'', Some ''image/jpg''} \<longrightarrow>
            (\<exists>new_id. fst (create_media f uuid4 api_key d) =
                        JSONResponse 200 (ResultMediaId True new_id) \<and>
               get_media_by_id new_id (snd (create_media f uuid4 api_key d)) =
                 (Response 200 (file_read f) ''image/png'',
                  snd (create_media f uuid4 api_key d))))"
proof (intro conjI impI ballI)
  assume "ident \<notin> m_id ` set (medias d)"
  then have e: "filter (\<lambda>m. m_id m = ident) (medias d) = []" by (rule filter_key_absent)
  then show "raised (GetMedia ident) d = Some (HTTPException 404 ''Media not found'')"
    by (simp add: raised_of_def get_media_by_id_try_def get_async_session_def)
  from e show "get_media_by_id ident d =
      (JSONResponse 200 (ResultError False ''server_error''
         (str_exn (HTTPException 404 ''Media not found''))), d)"
    by (simp add: get_media_by_id_def get_media_by_id_try_def get_async_session_def
          close_session_def)
next
  fix m assume "m \<in> set (medias d)" and "m_id m = ident"
  with assms have "filter (\<lambda>y. m_id y = ident) (medias d) = [m]"
    using filter_key_unique [of m_id "medias d" m] by simp
  then show "get_media_by_id ident d = (Response 200 (m_data m) ''image/png'', d)"
    by (simp add: get_media_by_id_def get_media_by_id_try_def get_async_session_def
          close_session_def)
next
  assume ct: "content_type f \<in> {Some ''image/jpeg'', Some ''image/png'', Some ''image/jpg''}"
  let ?new = "\<lparr>m_id = fresh_id (map m_id (medias d)), m_data = file_read f,
                m_file_name = uuid4 @ path_suffix (filename f), m_tweet_id = None\<rparr>"
  have c: "create_media f uuid4 api_key d =
      (JSONResponse 200 (ResultMediaId True (m_id ?new)), d\<lparr>medias := medias d @ [?new]\<rparr>)"
    using ct
    by (auto simp: create_media_def create_media_try_def Let_def close_session_def commit_def
          add_media_def get_async_session_def)
  have "m_id ?new \<notin> set (map m_id (medias d))" using fresh_id_notin_image [of m_id] by simp
  with assms have dn: "distinct (map m_id (medias d @ [?new]))" by simp
  have "filter (\<lambda>y. m_id y = m_id ?new) (medias d @ [?new]) = [?new]"
    using filter_key_unique [OF dn, of ?new] by simp
  then have "get_media_by_id (m_id ?new) (d\<lparr>medias := medias d @ [?new]\<rparr>) =
      (Response 200 (file_read f) ''image/png'', d\<lparr>medias := medias d @ [?new]\<rparr>)"
    by (simp add: get_media_by_id_def get_media_by_id_try_def get_async_session_def
          close_session_def)
  with c show "\<exists>new_id. fst (create_media f uuid4 api_key d) =
                        JSONResponse 200 (ResultMediaId True new_id) \<and>
               get_media_by_id new_id (snd (create_media f uuid4 api_key d)) =
                 (Response 200 (file_read f) ''image/png'',
                  snd (create_media f uuid4 api_key d))"
    by simp
qed

text \<open>
  Claim C6. The claim: a media id without a row fails with NotFound (404); a media id
  with a row is answered with the stored bytes as \<open>image/png\<close>, without
  authentication and without change to the store. Evaluated on the store \<open>db0\<close>:
  for the unknown id 5 the 404 \<open>HTTPException\<close> is raised inside the \<open>try\<close>
  block and caught by the \<open>except\<close> clause of the same handler, so the response
  has status 200 and the error body; for id 1, stored under the name \<open>test.jpg\<close>,
  and for a file uploaded as \<open>image/jpeg\<close>, the response is as claimed.
\<close>

theorem unknown_media_answers_200:
  "raised (GetMedia 5) db0 = Some (HTTPException 404 ''Media not found'') \<and>
   get_media_by_id 5 db0 =
     (JSONResponse 200 (ResultError False ''server_error'' ''404: Media not found''), db0) \<and>
   get_media_by_id 1 db0 = (Response 200 ''image content'' ''image/png'', db0) \<and>
   fst (get_media_by_id 2 (snd (create_media upload1 ''0b5e'' None db0))) =
     Response 200 ''raw bytes'' ''image/png''"
  by code_simp

section \<open>Tweet deletion\<close>

text \<open>
  Claim C5, as the code has it. For a caller resolved from the api-key header: a
  tweet id without a row raises the 404 \<open>HTTPException\<close> and the store is
  unchanged; a tweet of another owner raises the 403 \<open>HTTPException\<close> and the
  store is unchanged; the owner's request deletes the tweet row and every like whose
  \<open>tweet_id\<close> is that tweet, and the media rows that referenced the tweet stay in
  the store with \<open>tweet_id\<close> reset to NULL (the claim has them keep the reference).
  Users, followers, the other likes and the other media rows are as before.
\<close>

theorem tweet_deletion:
  assumes "primary_keys d" and "unique_api_keys d"
    and "u \<in> set (users d)" and "u_api_key u = Some k"
  shows "(ident \<notin> t_id ` set (tweets d) \<longrightarrow>
            raised (DeleteTweet ident (Some k)) d = Some (HTTPException 404 ''Tweet not found'') \<and>
            snd (delete_by_id ident (Some k) d) = d) \<and>
         (\<forall>t\<in>set (tweets d). t_id t = ident \<and> t_owner_id t \<noteq> Some (u_id u) \<longrightarrow>
            raised (DeleteTweet ident (Some k)) d =
              Some (HTTPException 403 ''You are not authorized to delete this tweet'') \<and>
            snd (delete_by_id ident (Some k) d) = d) \<and>
         (\<forall>t\<in>set (tweets d). t_id t = ident \<and> t_owner_id t = Some (u_id u) \<longrightarrow>
            delete_by_id ident (Some k) d =
              (JSONResponse 200 (Result True),
               d\<lparr>tweets := filter (\<lambda>x. t_id x \<noteq> ident) (tweets d),
                 likes := filter (\<lambda>l. l_tweet_id l \<noteq> Some ident) (likes d),
                 medias := map (\<lambda>m. if m_tweet_id m = Some ident
                                     then m\<lparr>m_tweet_id := None\<rparr> else m) (medias d)\<rparr>))"
proof -
  have cu: "get_current_user (Some k) (get_async_session d) = UserObj u"
    using assms(2-4) by (rule get_current_user_valid)
  have dt: "distinct (map t_id (tweets d))" using assms(1) by (simp add: primary_keys_def)
  show ?thesis
  proof (intro conjI impI ballI)
    assume a: "ident \<notin> t_id ` set (tweets d)"
    show "raised (DeleteTweet ident (Some k)) d = Some (HTTPException 404 ''Tweet not found'')"
      by (simp add: delete_by_id_absent [OF a] raised_of_def Let_def)
    show "snd (delete_by_id ident (Some k) d) = d"
      by (simp add: delete_by_id_def delete_by_id_absent [OF a] Let_def close_session_def
            get_async_session_simps)
  next
    fix t assume t: "t \<in> set (tweets d)" and "t_id t = ident \<and> t_owner_id t \<noteq> Some (u_id u)"
    then have i: "t_id t = ident" and o: "t_owner_id t \<noteq> Some (u_id u)" by simp_all
    from delete_by_id_found [OF dt t, of u] i o
    have r: "delete_by_id_try ident (UserObj u) (get_async_session d) =
        (Inl (HTTPException 403 ''You are not authorized to delete this tweet''),
         get_async_session d)" by simp
    show "raised (DeleteTweet ident (Some k)) d =
        Some (HTTPException 403 ''You are not authorized to delete this tweet'')"
      by (simp add: cu r raised_of_def Let_def)
    show "snd (delete_by_id ident (Some k) d) = d"
      by (simp add: delete_by_id_def cu r Let_def close_session_def get_async_session_simps)
  next
    fix t assume t: "t \<in> set (tweets d)" and "t_id t = ident \<and> t_owner_id t = Some (u_id u)"
    then have i: "t_id t = ident" and o: "t_owner_id t = Some (u_id u)" by simp_all
    from delete_by_id_found [OF dt t, of u] i o
    have r: "delete_by_id_try ident (UserObj u) (get_async_session d) =
        (Inr (), commit (delete_tweet t (get_async_session d)))" by simp
    show "delete_by_id ident (Some k) d =
        (JSONResponse 200 (Result True),
         d\<lparr>tweets := filter (\<lambda>x. t_id x \<noteq> ident) (tweets d),
           likes := filter (\<lambda>l. l_tweet_id l \<noteq> Some ident) (likes d),
           medias := map (\<lambda>m. if m_tweet_id m = Some ident
                               then m\<lparr>m_tweet_id := None\<rparr> else m) (medias d)\<rparr>)"
      using i
      by (simp add: delete_by_id_def cu r Let_def close_session_def commit_def delete_tweet_def
            get_async_session_simps)
  qed
qed

theorem tweet_deletion_witness:
  "raised (DeleteTweet 9 (Some ''test-api-key1'')) db0 =
     Some (HTTPException 404 ''Tweet not found'') \<and>
   snd (delete_by_id 9 (Some ''test-api-key1'') db0) = db0 \<and>
   raised (DeleteTweet 1 (Some ''test-api-key2'')) db0 =
     Some (HTTPException 403 ''You are not authorized to delete this tweet'') \<and>
   snd (delete_by_id 1 (Some ''test-api-key2'') db0) = db0 \<and>
   delete_by_id 1 (Some ''test-api-key1'') db0 =
     (JSONResponse 200 (Result True),
      \<lparr>users = [user1, user2], tweets = [], medias = [media1\<lparr>m_tweet_id := None\<rparr>],
       likes = [], followers = []\<rparr>)"
proof -
  have pk: "primary_keys db0" "unique_api_keys db0"
    by (simp_all add: primary_keys_def unique_api_keys_def db0_def user1_def user2_def)
  have u1: "user1 \<in> set (users db0)" "u_api_key user1 = Some ''test-api-key1''"
    and u2: "user2 \<in> set (users db0)" "u_api_key user2 = Some ''test-api-key2''"
    by (simp_all add: db0_def user1_def user2_def)
  have a: "9 \<notin> t_id ` set (tweets db0)" by (simp add: db0_def tweet1_def)
  have t: "tweet1 \<in> set (tweets db0)" "t_id tweet1 = 1"
    "t_owner_id tweet1 \<noteq> Some (u_id user2)" "t_owner_id tweet1 = Some (u_id user1)"
    by (simp_all add: db0_def tweet1_def user1_def user2_def)
  from tweet_deletion [OF pk u1, of 9] a
  have "raised (DeleteTweet 9 (Some ''test-api-key1'')) db0 =
      Some (HTTPException 404 ''Tweet not found'')"
    and "snd (delete_by_id 9 (Some ''test-api-key1'') db0) = db0" by simp_all
  moreover from tweet_deletion [OF pk u2, of 1] t
  have "raised (DeleteTweet 1 (Some ''test-api-key2'')) db0 =
      Some (HTTPException 403 ''You are not authorized to delete this tweet'')"
    and "snd (delete_by_id 1 (Some ''test-api-key2'') db0) = db0" by blast+
  moreover from tweet_deletion [OF pk u1, of 1] t
  have "delete_by_id 1 (Some ''test-api-key1'') db0 =
     (JSONResponse 200 (Result True),
      db0\<lparr>tweets := filter (\<lambda>x. t_id x \<noteq> 1) (tweets db0),
        likes := filter (\<lambda>l. l_tweet_id l \<noteq> Some 1) (likes db0),
        medias := map (\<lambda>m. if m_tweet_id m = Some 1
                           then m\<lparr>m_tweet_id := None\<rparr> else m) (medias db0)\<rparr>)" by blast
  then have "delete_by_id 1 (Some ''test-api-key1'') db0 =
     (JSONResponse 200 (Result True),
      \<lparr>users = [user1, user2], tweets = [], medias = [media1\<lparr>m_tweet_id := None\<rparr>],
       likes = [], followers = []\<rparr>)"
    by (simp add: db0_def tweet1_def like1_def media1_def)
  ultimately show ?thesis by simp
qed

text \<open>
  The claim as stated fails on the store \<open>db0\<close>: its media row references tweet 1
  before the owner deletes that tweet, and references nothing afterwards.
\<close>

theorem media_keep_reference_counterexample:
  "fst (delete_by_id 1 (Some ''test-api-key1'') db0) = JSONResponse 200 (Result True) \<and>
   map m_tweet_id (medias db0) = [Some 1] \<and>
   map m_tweet_id (medias (snd (delete_by_id 1 (Some ''test-api-key1'') db0))) = [None]"
  by code_simp

section \<open>Like and unlike\<close>

text \<open>
  Claim C7. For a caller resolved from the api-key header and an existing tweet:
  two likes of that tweet by the caller append two like rows with different, new
  keys, both for (caller, tweet), without any duplicate check; one unlike then
  succeeds and removes exactly one row matching (caller, tweet) from the table, so
  that one more matching row than before the two likes is left. An unlike without a
  matching row raises the 404 \<open>HTTPException\<close> and leaves the store unchanged.
\<close>

theorem like_twice_unlike_once:
  assumes "primary_keys d" and "unique_api_keys d"
    and "u \<in> set (users d)" and "u_api_key u = Some k" and "ident \<in> t_id ` set (tweets d)"
  shows "(\<exists>l1 l2.
            likes (serve [PostLikes ident (Some k), PostLikes ident (Some k)] d) =
              likes d @ [l1, l2] \<and>
            l_id l1 \<noteq> l_id l2 \<and> l_id l1 \<notin> l_id ` set (likes d) \<and>
            l_id l2 \<notin> l_id ` set (likes d) \<and>
            l_user_id l1 = Some (u_id u) \<and> l_tweet_id l1 = Some ident \<and>
            l_user_id l2 = Some (u_id u) \<and> l_tweet_id l2 = Some ident \<and>
            (\<exists>x\<in>set (likes d @ [l1, l2]).
               l_user_id x = Some (u_id u) \<and> l_tweet_id x = Some ident \<and>
               likes (serve [PostLikes ident (Some k), PostLikes ident (Some k),
                             DeleteLikes ident (Some k)] d) =
                 remove1 x (likes d @ [l1, l2]))) \<and>
         fst (handle (DeleteLikes ident (Some k))
                (serve [PostLikes ident (Some k), PostLikes ident (Some k)] d)) =
           JSONResponse 200 (Result True) \<and>
         length (filter (\<lambda>l. l_user_id l = Some (u_id u) \<and> l_tweet_id l = Some ident)
                   (likes (serve [PostLikes ident (Some k), PostLikes ident (Some k),
                                  DeleteLikes ident (Some k)] d))) =
           length (filter (\<lambda>l. l_user_id l = Some (u_id u) \<and> l_tweet_id l = Some ident)
                     (likes d)) + 1 \<and>
         ((\<forall>l\<in>set (likes d). \<not> (l_user_id l = Some (u_id u) \<and> l_tweet_id l = Some ident)) \<longrightarrow>
            raised (DeleteLikes ident (Some k)) d = Some (HTTPException 404 ''Like not found'') \<and>
            snd (delete_likes_by_id ident (Some k) d) = d)"
proof -
  let ?P = "\<lambda>l. l_user_id l = Some (u_id u) \<and> l_tweet_id l = Some ident"
  define l1 where "l1 = \<lparr>l_id = fresh_id (map l_id (likes d)),
                         l_user_id = Some (u_id u), l_tweet_id = Some ident\<rparr>"
  define d1 where "d1 = d\<lparr>likes := likes d @ [l1]\<rparr>"
  define l2 where "l2 = \<lparr>l_id = fresh_id (map l_id (likes d1)),
                         l_user_id = Some (u_id u), l_tweet_id = Some ident\<rparr>"
  define d2 where "d2 = d1\<lparr>likes := likes d1 @ [l2]\<rparr>"
  have dt: "distinct (map t_id (tweets d))" and dl: "distinct (map l_id (likes d))"
    using assms(1) by (simp_all add: primary_keys_def)
  have s1: "likes_tweets ident (Some k) d = (JSONResponse 200 (Result True), d1)"
    unfolding d1_def l1_def using dt assms(2-5) by (rule likes_tweets_ok)
  have w1: "distinct (map t_id (tweets d1))" "unique_api_keys d1" "u \<in> set (users d1)"
    "ident \<in> t_id ` set (tweets d1)"
    using dt assms(2,3,5) by (simp_all add: d1_def unique_api_keys_def)
  have s2: "likes_tweets ident (Some k) d1 = (JSONResponse 200 (Result True), d2)"
    unfolding d2_def l2_def using w1(1-3) assms(4) w1(4) by (rule likes_tweets_ok)
  have serve2: "serve [PostLikes ident (Some k), PostLikes ident (Some k)] d = d2"
    by (simp add: s1 s2)
  have l2s: "likes d2 = likes d @ [l1, l2]" by (simp add: d2_def d1_def)
  have n1: "l_id l1 \<notin> l_id ` set (likes d)"
    unfolding l1_def using fresh_id_notin_image [of l_id "likes d"] by simp
  have n2': "l_id l2 \<notin> l_id ` set (likes d1)"
    unfolding l2_def using fresh_id_notin_image [of l_id "likes d1"] by simp
  then have n2: "l_id l2 \<notin> l_id ` set (likes d)" and ne: "l_id l1 \<noteq> l_id l2"
    by (auto simp: d1_def)
  have p: "?P l1" "?P l2" by (simp_all add: l1_def l2_def)
  have dl2: "distinct (map l_id (likes d2))"
    using dl n1 n2 ne by (auto simp: l2s)
  have w2: "unique_api_keys d2" "u \<in> set (users d2)"
    using assms(2,3) by (simp_all add: d2_def d1_def unique_api_keys_def)
  have "\<not> (\<forall>l\<in>set (likes d2). \<not> ?P l)" using p by (auto simp: l2s)
  then have "first (filter ?P (likes d2)) \<noteq> None"
    using first_filter_None [of ?P "likes d2"] by blast
  then obtain x where fx: "first (filter ?P (likes d2)) = Some x" by blast
  then have xin: "x \<in> set (likes d2)" and px: "?P x"
    using first_filter_Some [of ?P "likes d2" x] by simp_all
  have del: "delete_likes_by_id ident (Some k) d2 =
      (JSONResponse 200 (Result True), d2\<lparr>likes := remove1 x (likes d2)\<rparr>)"
    using delete_likes_by_id_result [OF w2 assms(4), of ident] fx
      filter_key_remove1 [OF dl2 xin] by simp
  have serve3: "likes (serve [PostLikes ident (Some k), PostLikes ident (Some k),
      DeleteLikes ident (Some k)] d) = remove1 x (likes d2)"
    by (simp add: s1 s2 del)
  have cnt: "length (filter ?P (remove1 x (likes d2))) = length (filter ?P (likes d)) + 1"
    using length_filter_remove1 [OF xin, of ?P] px p by (simp add: l2s)
  have part1: "\<exists>l1 l2.
            likes (serve [PostLikes ident (Some k), PostLikes ident (Some k)] d) =
              likes d @ [l1, l2] \<and>
            l_id l1 \<noteq> l_id l2 \<and> l_id l1 \<notin> l_id ` set (likes d) \<and>
            l_id l2 \<notin> l_id ` set (likes d) \<and>
            l_user_id l1 = Some (u_id u) \<and> l_tweet_id l1 = Some ident \<and>
            l_user_id l2 = Some (u_id u) \<and> l_tweet_id l2 = Some ident \<and>
            (\<exists>x\<in>set (likes d @ [l1, l2]).
               l_user_id x = Some (u_id u) \<and> l_tweet_id x = Some ident \<and>
               likes (serve [PostLikes ident (Some k), PostLikes ident (Some k),
                             DeleteLikes ident (Some k)] d) =
                 remove1 x (likes d @ [l1, l2]))"
  proof (intro exI conjI bexI)
    show "likes (serve [PostLikes ident (Some k), PostLikes ident (Some k)] d) =
        likes d @ [l1, l2]" by (simp only: serve2 l2s)
    show "l_id l1 \<noteq> l_id l2" by (rule ne)
    show "l_id l1 \<notin> l_id ` set (likes d)" by (rule n1)
    show "l_id l2 \<notin> l_id ` set (likes d)" by (rule n2)
    show "l_user_id l1 = Some (u_id u)" "l_tweet_id l1 = Some ident"
      "l_user_id l2 = Some (u_id u)" "l_tweet_id l2 = Some ident" using p by simp_all
    show "l_user_id x = Some (u_id u)" "l_tweet_id x = Some ident" using px by simp_all
    show "likes (serve [PostLikes ident (Some k), PostLikes ident (Some k),
        DeleteLikes ident (Some k)] d) = remove1 x (likes d @ [l1, l2])"
      using serve3 by (simp only: l2s)
    show "x \<in> set (likes d @ [l1, l2])" using xin by (simp only: l2s)
  qed
  have part2: "fst (handle (DeleteLikes ident (Some k))
                (serve [PostLikes ident (Some k), PostLikes ident (Some k)] d)) =
           JSONResponse 200 (Result True)"
    by (simp only: serve2 handle.simps del fst_conv)
  have part3: "length (filter ?P
                   (likes (serve [PostLikes ident (Some k), PostLikes ident (Some k),
                                  DeleteLikes ident (Some k)] d))) =
           length (filter ?P (likes d)) + 1"
    by (simp only: serve3 cnt)
  have part4: "(\<forall>l\<in>set (likes d). \<not> ?P l) \<longrightarrow>
            raised (DeleteLikes ident (Some k)) d = Some (HTTPException 404 ''Like not found'') \<and>
            snd (delete_likes_by_id ident (Some k) d) = d"
  proof (intro impI conjI)
    assume a: "\<forall>l\<in>set (likes d). \<not> ?P l"
    show "raised (DeleteLikes ident (Some k)) d = Some (HTTPException 404 ''Like not found'')"
      using assms(2-4) a by (rule delete_likes_by_id_raised)
    from a have "first (filter ?P (likes d)) = None" by (simp add: first_filter_None)
    then show "snd (delete_likes_by_id ident (Some k) d) = d"
      using delete_likes_by_id_result [OF assms(2-4), of ident] by simp
  qed
  from part1 part2 part3 part4 show ?thesis by blast
qed

theorem like_twice_unlike_once_witness:
  "length (filter (\<lambda>l. l_user_id l = Some 1 \<and> l_tweet_id l = Some 1)
     (likes (serve [PostLikes 1 (Some ''test-api-key1''), PostLikes 1 (Some ''test-api-key1''),
                    DeleteLikes 1 (Some ''test-api-key1'')] db0))) = 1 \<and>
   fst (handle (DeleteLikes 1 (Some ''test-api-key1''))
          (serve [PostLikes 1 (Some ''test-api-key1''), PostLikes 1 (Some ''test-api-key1'')] db0)) =
     JSONResponse 200 (Result True) \<and>
   raised (DeleteLikes 1 (Some ''test-api-key1'')) db0 =
     Some (HTTPException 404 ''Like not found'') \<and>
   snd (delete_likes_by_id 1 (Some ''test-api-key1'') db0) = db0"
proof -
  have pk: "primary_keys db0" "unique_api_keys db0"
    by (simp_all add: primary_keys_def unique_api_keys_def db0_def user1_def user2_def)
  have u1: "user1 \<in> set (users db0)" "u_api_key user1 = Some ''test-api-key1''"
    by (simp_all add: db0_def user1_def)
  have t: "1 \<in> t_id ` set (tweets db0)" by (simp add: db0_def tweet1_def)
  have i: "u_id user1 = 1" by (simp add: user1_def)
  have n: "\<forall>l\<in>set (likes db0). \<not> (l_user_id l = Some 1 \<and> l_tweet_id l = Some 1)"
    by (simp add: db0_def like1_def)
  then have e: "filter (\<lambda>l. l_user_id l = Some 1 \<and> l_tweet_id l = Some 1) (likes db0) = []"
    by (simp add: filter_empty_conv)
  from like_twice_unlike_once [OF pk u1 t] n e show ?thesis
    unfolding i by simp
qed

section \<open>Tweet creation with media\<close>

text \<open>
  Claim C4. For a caller resolved from the api-key header and a list of media ids
  that all name rows of the media table: the request succeeds and returns the key of
  the new tweet, which no tweet had before; the media table afterwards is the old
  one with \<open>tweet_id\<close> set to the new key in exactly the rows named by the list,
  every other row as it was; when the foreign key of \<open>tweet_id\<close> held before, the
  rows that reference the new tweet number as many as the list has different ids
  (its length, when the ids are distinct). The ids are worked in the order given and
  the first id without a row ends the loop: with the list \<open>pre @ bad # post\<close>,
  where \<open>bad\<close> is the first such id, the 404 \<open>HTTPException\<close> is raised and the
  rows named in \<open>pre\<close> are attached, whatever \<open>post\<close> holds.
\<close>

theorem create_tweet_attaches_media:
  assumes "primary_keys d" and "unique_api_keys d"
    and "u \<in> set (users d)" and "u_api_key u = Some k"
    and "tweet_media_ids tweet = Some ids"
  shows "(set ids \<subseteq> m_id ` set (medias d) \<longrightarrow>
            fst (create_tweet tweet (Some k) d) =
              JSONResponse 200 (ResultTweetId True (fresh_id (map t_id (tweets d)))) \<and>
            fresh_id (map t_id (tweets d)) \<notin> t_id ` set (tweets d) \<and>
            tweets (snd (create_tweet tweet (Some k) d)) =
              tweets d @ [\<lparr>t_id = fresh_id (map t_id (tweets d)),
                            t_content_text = Some (tweet_data tweet),
                            t_owner_id = Some (u_id u)\<rparr>] \<and>
            medias (snd (create_tweet tweet (Some k) d)) =
              map (\<lambda>m. if m_id m \<in> set ids
                        then m\<lparr>m_tweet_id := Some (fresh_id (map t_id (tweets d)))\<rparr>
                        else m) (medias d) \<and>
            (media_foreign_key d \<longrightarrow>
               length (filter (\<lambda>m. m_tweet_id m = Some (fresh_id (map t_id (tweets d))))
                         (medias (snd (create_tweet tweet (Some k) d)))) = card (set ids) \<and>
               (distinct ids \<longrightarrow>
                  length (filter (\<lambda>m. m_tweet_id m = Some (fresh_id (map t_id (tweets d))))
                            (medias (snd (create_tweet tweet (Some k) d)))) = length ids))) \<and>
         (\<forall>pre bad post.
            ids = pre @ bad # post \<and> set pre \<subseteq> m_id ` set (medias d) \<and>
            bad \<notin> m_id ` set (medias d) \<longrightarrow>
              raised (PostTweets tweet (Some k)) d =
                Some (HTTPException 404 ''Media not found'') \<and>
              medias (snd (create_tweet tweet (Some k) d)) =
                map (\<lambda>m. if m_id m \<in> set pre
                          then m\<lparr>m_tweet_id := Some (fresh_id (map t_id (tweets d)))\<rparr>
                          else m) (medias d))"
proof -
  let ?tid = "fresh_id (map t_id (tweets d))"
  let ?d' = "snd (create_tweet tweet (Some k) d)"
  let ?att = "\<lambda>S m. if m_id m \<in> S then m\<lparr>m_tweet_id := Some ?tid\<rparr> else m"
  have dm: "distinct (map m_id (medias d))" using assms(1) by (simp add: primary_keys_def)
  have fresh: "?tid \<notin> t_id ` set (tweets d)" by (rule fresh_id_notin_image)
  have part1: "set ids \<subseteq> m_id ` set (medias d) \<longrightarrow>
      fst (create_tweet tweet (Some k) d) = JSONResponse 200 (ResultTweetId True ?tid) \<and>
      ?tid \<notin> t_id ` set (tweets d) \<and>
      tweets ?d' = tweets d @ [\<lparr>t_id = ?tid, t_content_text = Some (tweet_data tweet),
                                t_owner_id = Some (u_id u)\<rparr>] \<and>
      medias ?d' = map (?att (set ids)) (medias d) \<and>
      (media_foreign_key d \<longrightarrow>
         length (filter (\<lambda>m. m_tweet_id m = Some ?tid) (medias ?d')) = card (set ids) \<and>
         (distinct ids \<longrightarrow>
            length (filter (\<lambda>m. m_tweet_id m = Some ?tid) (medias ?d')) = length ids))"
  proof
    assume sub: "set ids \<subseteq> m_id ` set (medias d)"
    note c = create_tweet_all_valid [OF dm assms(2-5) sub]
    have r: "fst (create_tweet tweet (Some k) d) = JSONResponse 200 (ResultTweetId True ?tid)"
      unfolding c by simp
    have tw: "tweets ?d' = tweets d @ [\<lparr>t_id = ?tid, t_content_text = Some (tweet_data tweet),
                                t_owner_id = Some (u_id u)\<rparr>]"
      unfolding c by simp
    have md: "medias ?d' = map (?att (set ids)) (medias d)"
      unfolding c by simp
    have cn: "media_foreign_key d \<longrightarrow>
         length (filter (\<lambda>m. m_tweet_id m = Some ?tid) (medias ?d')) = card (set ids) \<and>
         (distinct ids \<longrightarrow>
            length (filter (\<lambda>m. m_tweet_id m = Some ?tid) (medias ?d')) = length ids)"
    proof
      assume fk: "media_foreign_key d"
      have nr: "\<forall>m\<in>set (medias d). m_tweet_id m \<noteq> Some ?tid"
      proof
        fix m assume "m \<in> set (medias d)"
        with fk have ref: "case m_tweet_id m of None \<Rightarrow> True
                      | Some ref \<Rightarrow> ref \<in> t_id ` set (tweets d)"
          by (simp add: media_foreign_key_def list_all_iff)
        show "m_tweet_id m \<noteq> Some ?tid"
        proof
          assume "m_tweet_id m = Some ?tid"
          with ref have "?tid \<in> t_id ` set (tweets d)" by simp
          with fresh show False by contradiction
        qed
      qed
      have fin: "finite (set ids)" by simp
      have n: "length (filter (\<lambda>m. m_tweet_id m = Some ?tid) (medias ?d')) = card (set ids)"
        unfolding md using dm sub fin nr by (rule count_attached)
      moreover have "distinct ids \<longrightarrow>
          length (filter (\<lambda>m. m_tweet_id m = Some ?tid) (medias ?d')) = length ids"
        unfolding n by (simp add: distinct_card)
      ultimately show "length (filter (\<lambda>m. m_tweet_id m = Some ?tid) (medias ?d')) =
          card (set ids) \<and>
         (distinct ids \<longrightarrow>
            length (filter (\<lambda>m. m_tweet_id m = Some ?tid) (medias ?d')) = length ids)"
        by (rule conjI)
    qed
    from r fresh tw md cn
    show "fst (create_tweet tweet (Some k) d) = JSONResponse 200 (ResultTweetId True ?tid) \<and>
      ?tid \<notin> t_id ` set (tweets d) \<and>
      tweets ?d' = tweets d @ [\<lparr>t_id = ?tid, t_content_text = Some (tweet_data tweet),
                                t_owner_id = Some (u_id u)\<rparr>] \<and>
      medias ?d' = map (?att (set ids)) (medias d) \<and>
      (media_foreign_key d \<longrightarrow>
         length (filter (\<lambda>m. m_tweet_id m = Some ?tid) (medias ?d')) = card (set ids) \<and>
         (distinct ids \<longrightarrow>
            length (filter (\<lambda>m. m_tweet_id m = Some ?tid) (medias ?d')) = length ids))"
      by (intro conjI)
  qed
  have part2: "\<forall>pre bad post.
      ids = pre @ bad # post \<and> set pre \<subseteq> m_id ` set (medias d) \<and>
      bad \<notin> m_id ` set (medias d) \<longrightarrow>
        raised (PostTweets tweet (Some k)) d = Some (HTTPException 404 ''Media not found'') \<and>
        medias ?d' = map (?att (set pre)) (medias d)"
  proof (intro allI impI)
    fix pre bad post
    assume h: "ids = pre @ bad # post \<and> set pre \<subseteq> m_id ` set (medias d) \<and>
      bad \<notin> m_id ` set (medias d)"
    from h assms(5) have i: "tweet_media_ids tweet = Some (pre @ bad # post)" by simp
    from h have sub: "set pre \<subseteq> m_id ` set (medias d)"
      and bad: "bad \<notin> m_id ` set (medias d)" by simp_all
    note c = create_tweet_first_missing [OF dm assms(2-4) i sub bad]
    have "medias ?d' = map (?att (set pre)) (medias d)" unfolding c(1) by simp
    with c(2)
    show "raised (PostTweets tweet (Some k)) d = Some (HTTPException 404 ''Media not found'') \<and>
      medias ?d' = map (?att (set pre)) (medias d)"
      by (rule conjI)
  qed
  from part1 part2 show ?thesis by (rule conjI)
qed

theorem create_tweet_attaches_media_witness:
  "fst (create_tweet \<lparr>tweet_data = ''hi'', tweet_media_ids = Some [1]\<rparr>
          (Some ''test-api-key1'') db0) = JSONResponse 200 (ResultTweetId True 2) \<and>
   length (filter (\<lambda>m. m_tweet_id m = Some 2)
     (medias (snd (create_tweet \<lparr>tweet_data = ''hi'', tweet_media_ids = Some [1]\<rparr>
                     (Some ''test-api-key1'') db0)))) = 1 \<and>
   raised (PostTweets \<lparr>tweet_data = ''hi'', tweet_media_ids = Some [1, 7]\<rparr>
             (Some ''test-api-key1'')) db0 = Some (HTTPException 404 ''Media not found'') \<and>
   medias (snd (create_tweet \<lparr>tweet_data = ''hi'', tweet_media_ids = Some [1, 7]\<rparr>
                  (Some ''test-api-key1'') db0)) = [media1\<lparr>m_tweet_id := Some 2\<rparr>]"
proof -
  have pk: "primary_keys db0" "unique_api_keys db0"
    by (simp_all add: primary_keys_def unique_api_keys_def db0_def user1_def user2_def)
  have u1: "user1 \<in> set (users db0)" "u_api_key user1 = Some ''test-api-key1''"
    by (simp_all add: db0_def user1_def)
  have fk: "media_foreign_key db0"
    by (simp add: media_foreign_key_def db0_def media1_def tweet1_def)
  have tid: "fresh_id (map t_id (tweets db0)) = 2"
    by (simp add: fresh_id_def db0_def tweet1_def)
  have sub: "set [1] \<subseteq> m_id ` set (medias db0)" by (simp add: db0_def media1_def)
  have mis: "[1, 7] = [1] @ 7 # [] \<and> set [1] \<subseteq> m_id ` set (medias db0) \<and>
      7 \<notin> m_id ` set (medias db0)" by (simp add: db0_def media1_def)
  have md: "medias db0 = [media1]" "m_id media1 = 1" by (simp_all add: db0_def media1_def)
  have i1: "tweet_media_ids \<lparr>tweet_data = ''hi'', tweet_media_ids = Some [1]\<rparr> = Some [1]"
    and i2: "tweet_media_ids \<lparr>tweet_data = ''hi'', tweet_media_ids = Some [1, 7]\<rparr> = Some [1, 7]"
    by simp_all
  note t1 = create_tweet_attaches_media [OF pk u1 i1, unfolded tid]
  note t2 = create_tweet_attaches_media [OF pk u1 i2, unfolded tid]
  from t1 sub
  have a: "fst (create_tweet \<lparr>tweet_data = ''hi'', tweet_media_ids = Some [1]\<rparr>
          (Some ''test-api-key1'') db0) = JSONResponse 200 (ResultTweetId True 2)"
    by blast
  from t1 sub fk
  have "length (filter (\<lambda>m. m_tweet_id m = Some 2)
     (medias (snd (create_tweet \<lparr>tweet_data = ''hi'', tweet_media_ids = Some [1]\<rparr>
                     (Some ''test-api-key1'') db0)))) = card (set [1::int])"
    by blast
  then have b: "length (filter (\<lambda>m. m_tweet_id m = Some 2)
     (medias (snd (create_tweet \<lparr>tweet_data = ''hi'', tweet_media_ids = Some [1]\<rparr>
                     (Some ''test-api-key1'') db0)))) = 1"
    by simp
  from t2 mis
  have "raised (PostTweets \<lparr>tweet_data = ''hi'', tweet_media_ids = Some [1, 7]\<rparr>
             (Some ''test-api-key1'')) db0 = Some (HTTPException 404 ''Media not found'') \<and>
    medias (snd (create_tweet \<lparr>tweet_data = ''hi'', tweet_media_ids = Some [1, 7]\<rparr>
                  (Some ''test-api-key1'') db0)) =
      map (\<lambda>m. if m_id m \<in> set [1] then m\<lparr>m_tweet_id := Some 2\<rparr> else m) (medias db0)"
    by blast
  then have c: "raised (PostTweets \<lparr>tweet_data = ''hi'', tweet_media_ids = Some [1, 7]\<rparr>
             (Some ''test-api-key1'')) db0 = Some (HTTPException 404 ''Media not found'')"
    and e: "medias (snd (create_tweet \<lparr>tweet_data = ''hi'', tweet_media_ids = Some [1, 7]\<rparr>
                  (Some ''test-api-key1'') db0)) = [media1\<lparr>m_tweet_id := Some 2\<rparr>]"
    by (simp_all add: md)
  from a b c e show ?thesis by (intro conjI)
qed

text \<open>
  Claim C8. A media row already attached to another tweet is reassigned without any
  check: the request succeeds, the new tweet is in the tweets table under the key
  returned, and the row, otherwise as it was, references that new tweet and no
  longer the old one.
\<close>

theorem create_tweet_reassigns_media:
  assumes "primary_keys d" and "unique_api_keys d"
    and "u \<in> set (users d)" and "u_api_key u = Some k"
    and "tweet_media_ids tweet = Some ids" and "set ids \<subseteq> m_id ` set (medias d)"
    and "m \<in> set (medias d)" and "m_id m \<in> set ids"
    and "m_tweet_id m = Some other" and "other \<in> t_id ` set (tweets d)"
  shows "fst (create_tweet tweet (Some k) d) =
           JSONResponse 200 (ResultTweetId True (fresh_id (map t_id (tweets d)))) \<and>
         tweets (snd (create_tweet tweet (Some k) d)) =
           tweets d @ [\<lparr>t_id = fresh_id (map t_id (tweets d)),
                         t_content_text = Some (tweet_data tweet),
                         t_owner_id = Some (u_id u)\<rparr>] \<and>
         fresh_id (map t_id (tweets d)) \<noteq> other \<and>
         m\<lparr>m_tweet_id := Some (fresh_id (map t_id (tweets d)))\<rparr>
           \<in> set (medias (snd (create_tweet tweet (Some k) d))) \<and>
         (\<forall>m'\<in>set (medias (snd (create_tweet tweet (Some k) d))).
            m_id m' = m_id m \<longrightarrow>
              m_tweet_id m' = Some (fresh_id (map t_id (tweets d))) \<and>
              m_tweet_id m' \<noteq> Some other)"
proof -
  let ?tid = "fresh_id (map t_id (tweets d))"
  let ?f = "\<lambda>m. if m_id m \<in> set ids then m\<lparr>m_tweet_id := Some ?tid\<rparr> else m"
  have dm: "distinct (map m_id (medias d))" using assms(1) by (simp add: primary_keys_def)
  note c = create_tweet_all_valid [OF dm assms(2-6)]
  have r: "fst (create_tweet tweet (Some k) d) = JSONResponse 200 (ResultTweetId True ?tid)"
    unfolding c by simp
  have md: "medias (snd (create_tweet tweet (Some k) d)) = map ?f (medias d)"
    unfolding c by simp
  have tw: "tweets (snd (create_tweet tweet (Some k) d)) =
      tweets d @ [\<lparr>t_id = ?tid, t_content_text = Some (tweet_data tweet),
                    t_owner_id = Some (u_id u)\<rparr>]"
    unfolding c by simp
  have "?tid \<notin> t_id ` set (tweets d)" by (rule fresh_id_notin_image)
  with assms(10) have ne: "?tid \<noteq> other" by blast
  have "?f m \<in> ?f ` set (medias d)" using assms(7) by (rule imageI)
  moreover have "?f m = m\<lparr>m_tweet_id := Some ?tid\<rparr>" using assms(8) by simp
  ultimately have mem: "m\<lparr>m_tweet_id := Some ?tid\<rparr> \<in> set (map ?f (medias d))" by simp
  have al: "\<forall>m'\<in>set (map ?f (medias d)). m_id m' = m_id m \<longrightarrow>
      m_tweet_id m' = Some ?tid \<and> m_tweet_id m' \<noteq> Some other"
  proof (intro ballI impI)
    fix m' assume "m' \<in> set (map ?f (medias d))" and i: "m_id m' = m_id m"
    then obtain x where x: "x \<in> set (medias d)" "m' = ?f x" by auto
    have "m_id (?f x) = m_id x" by simp
    with x(2) i assms(8) have "m_id x \<in> set ids" by simp
    with x(2) have "m_tweet_id m' = Some ?tid" by simp
    with ne show "m_tweet_id m' = Some ?tid \<and> m_tweet_id m' \<noteq> Some other" by simp
  qed
  from r tw ne mem al show ?thesis unfolding md by (intro conjI)
qed

theorem create_tweet_reassigns_media_witness:
  "fst (create_tweet \<lparr>tweet_data = ''mine now'', tweet_media_ids = Some [1]\<rparr>
          (Some ''test-api-key2'') db0) = JSONResponse 200 (ResultTweetId True 2) \<and>
   tweets (snd (create_tweet \<lparr>tweet_data = ''mine now'', tweet_media_ids = Some [1]\<rparr>
                  (Some ''test-api-key2'') db0)) =
     [tweet1, \<lparr>t_id = 2, t_content_text = Some ''mine now'', t_owner_id = Some 2\<rparr>] \<and>
   m_tweet_id media1 = Some 1 \<and>
   media1\<lparr>m_tweet_id := Some 2\<rparr> \<in>
     set (medias (snd (create_tweet \<lparr>tweet_data = ''mine now'', tweet_media_ids = Some [1]\<rparr>
                         (Some ''test-api-key2'') db0)))"
proof -
  have pk: "primary_keys db0" "unique_api_keys db0"
    by (simp_all add: primary_keys_def unique_api_keys_def db0_def user1_def user2_def)
  have u2: "user2 \<in> set (users db0)" "u_api_key user2 = Some ''test-api-key2''"
    by (simp_all add: db0_def user2_def)
  have tid: "fresh_id (map t_id (tweets db0)) = 2"
    by (simp add: fresh_id_def db0_def tweet1_def)
  have i: "tweet_media_ids \<lparr>tweet_data = ''mine now'', tweet_media_ids = Some [1]\<rparr> = Some [1]"
    by simp
  have sub: "set [1] \<subseteq> m_id ` set (medias db0)" by (simp add: db0_def media1_def)
  have m: "media1 \<in> set (medias db0)" "m_id media1 \<in> set [1]" "m_tweet_id media1 = Some 1"
    "1 \<in> t_id ` set (tweets db0)"
    by (simp_all add: db0_def media1_def tweet1_def)
  note t = create_tweet_reassigns_media [OF pk u2 i sub m, unfolded tid]
  from t have "tweets (snd (create_tweet \<lparr>tweet_data = ''mine now'',
        tweet_media_ids = Some [1]\<rparr> (Some ''test-api-key2'') db0)) =
      tweets db0 @ [\<lparr>t_id = 2,
        t_content_text = Some (tweet_data \<lparr>tweet_data = ''mine now'',
                                          tweet_media_ids = Some [1]\<rparr>),
        t_owner_id = Some (u_id user2)\<rparr>]"
    by blast
  then have tw: "tweets (snd (create_tweet \<lparr>tweet_data = ''mine now'',
        tweet_media_ids = Some [1]\<rparr> (Some ''test-api-key2'') db0)) =
      [tweet1, \<lparr>t_id = 2, t_content_text = Some ''mine now'', t_owner_id = Some 2\<rparr>]"
    by (simp add: db0_def user2_def)
  from t have "fst (create_tweet \<lparr>tweet_data = ''mine now'', tweet_media_ids = Some [1]\<rparr>
          (Some ''test-api-key2'') db0) = JSONResponse 200 (ResultTweetId True 2) \<and>
      media1\<lparr>m_tweet_id := Some 2\<rparr> \<in>
        set (medias (snd (create_tweet \<lparr>tweet_data = ''mine now'',
          tweet_media_ids = Some [1]\<rparr> (Some ''test-api-key2'') db0)))"
    by blast
  with tw m(3) show ?thesis by (intro conjI) simp_all
qed

text \<open>
  Claim C2. The claim: when an id of the list names no media row, the request is
  reported as failed with the 404 condition, the new tweet stays, and none of the
  listed media rows is attached to it. Evaluated on the store \<open>db0\<close> with the list
  \<open>[1, 7]\<close>, where only media 1 exists: the failure is reported and the tweet
  stays, and media 1 is attached to the new tweet 2, because each attachment is
  committed inside the loop and the later \<open>rollback\<close> finds nothing pending.
\<close>

theorem partial_attachment_persists:
  "create_tweet \<lparr>tweet_data = ''hi'', tweet_media_ids = Some [1, 7]\<rparr>
     (Some ''test-api-key1'') db0 =
     (JSONResponse 200 (ResultError False ''server_error'' ''404: Media not found''),
      \<lparr>users = [user1, user2],
       tweets = [tweet1, \<lparr>t_id = 2, t_content_text = Some ''hi'', t_owner_id = Some 1\<rparr>],
       medias = [media1\<lparr>m_tweet_id := Some 2\<rparr>],
       likes = [like1], followers = []\<rparr>)"
  by code_simp

end
